theory Spec2Isabelle
  imports Complex_Main
begin

section \<open>Python values shared by the AMBER codecs\<close>

text \<open>
  The theory embeds \<^verbatim>\<open>MDAnalysis/coordinates/TRJ.py\<close>: the ASCII reader
  \<^verbatim>\<open>TRJReader\<close>, the binary reader \<^verbatim>\<open>NCDFReader\<close> and the binary writer
  \<^verbatim>\<open>NCDFWriter\<close>. Every method becomes a function on a record of the object's
  attributes; an exception is a value \<open>Inl (kind, message)\<close> of a sum type.

  Floating-point numbers are modelled by the real numbers they denote and their
  arithmetic is exact; rounding, infinities and NaN are outside the model.
\<close>

datatype exn = ValueError | TypeError | OSError | IOError | EOFError | StopIteration
  | IndexError | KeyError | AttributeError | NotImplementedError | ZeroDivisionError
  | NoDataError

type_synonym error = "exn \<times> string"

text \<open>\<^verbatim>\<open>str.isspace\<close> on the code points below 256, and \<^verbatim>\<open>str.rstrip()\<close>,
  \<^verbatim>\<open>str.strip()\<close> without argument.\<close>

definition py_isspace :: "char \<Rightarrow> bool" where
  "py_isspace c =
     (c \<in> set [CHR 0x09, CHR 0x0A, CHR 0x0B, CHR 0x0C, CHR 0x0D, CHR 0x1C, CHR 0x1D,
                CHR 0x1E, CHR 0x1F, CHR 0x20, CHR 0x85, CHR 0xA0])"

definition py_rstrip :: "string \<Rightarrow> string" where
  "py_rstrip s = rev (dropWhile py_isspace (rev s))"

definition py_strip :: "string \<Rightarrow> string" where
  "py_strip s = dropWhile py_isspace (py_rstrip s)"

text \<open>A numpy value: a scalar or an array, the array given by its elements in row-major
  order. Arithmetic with a Python float is elementwise.\<close>

datatype ndarray = Scalar real | Array "real list"

fun nd_map :: "(real \<Rightarrow> real) \<Rightarrow> ndarray \<Rightarrow> ndarray" where
  "nd_map f (Scalar x) = Scalar (f x)"
| "nd_map f (Array xs) = Array (map f xs)"

definition nd_mul :: "ndarray \<Rightarrow> real \<Rightarrow> ndarray" where
  "nd_mul a s = nd_map (\<lambda>x. x * s) a"

definition nd_div :: "ndarray \<Rightarrow> real \<Rightarrow> ndarray" where
  "nd_div a s = nd_map (\<lambda>x. x / s) a"

fun nd_sub :: "ndarray \<Rightarrow> ndarray \<Rightarrow> error + ndarray" where
  "nd_sub (Scalar a) (Scalar b) = Inr (Scalar (a - b))"
| "nd_sub (Scalar a) (Array bs) = Inr (Array (map (\<lambda>b. a - b) bs))"
| "nd_sub (Array as) (Scalar b) = Inr (Array (map (\<lambda>a. a - b) as))"
| "nd_sub (Array as) (Array bs) =
     (if length as = length bs then Inr (Array (map (\<lambda>(a, b). a - b) (zip as bs)))
      else Inl (ValueError, ''operands could not be broadcast together''))"

text \<open>The frame buffer \<^verbatim>\<open>Timestep\<close>. Modelled from the spec: the class is imported
  from \<^verbatim>\<open>.timestep\<close>, which is not among the sources; the fields are those of section 3
  of the specification (positions as \<open>3 * n_atoms\<close> numbers in row-major order, an
  optional box of six numbers). \<open>ts_time = None\<close> stands for a buffer whose time has
  not been assigned.\<close>

record timestep =
  ts_n_atoms :: nat
  ts_frame :: int
  ts_time :: "ndarray option"
  ts_pos :: "real list"
  ts_velocities :: "real list option"
  ts_forces :: "real list option"
  ts_dimensions :: "real list option"

definition Timestep :: "nat \<Rightarrow> bool \<Rightarrow> bool \<Rightarrow> timestep" where
  "Timestep n velocities forces =
     \<lparr>ts_n_atoms = n, ts_frame = - 1, ts_time = None, ts_pos = replicate (3 * n) 0,
      ts_velocities = (if velocities then Some (replicate (3 * n) 0) else None),
      ts_forces = (if forces then Some (replicate (3 * n) 0) else None),
      ts_dimensions = None\<rparr>"

section \<open>The ASCII reader \<^verbatim>\<open>TRJReader\<close>\<close>

text \<open>
  \<^verbatim>\<open>util.FORTRANReader\<close> is not among the sources, so the reader takes it as a
  parameter: \<open>fr_read k line\<close> is \<^verbatim>\<open>FORTRANReader("kF8.3").read(line)\<close>, with \<open>None\<close>
  for its \<^verbatim>\<open>ValueError\<close>, and \<open>fr_number_of_matches k line\<close> is
  \<^verbatim>\<open>FORTRANReader("kF8.3").number_of_matches(line)\<close>.
\<close>

record fortran_reader =
  fr_read :: "nat \<Rightarrow> string \<Rightarrow> real list option"
  fr_number_of_matches :: "nat \<Rightarrow> string \<Rightarrow> nat"

text \<open>
  The attributes of a \<^verbatim>\<open>TRJReader\<close>. \<open>trj_disk\<close> is what \<^verbatim>\<open>util.anyopen(self.filename)\<close>
  finds: the lines of the file, each with its line end, or \<open>None\<close> when the file cannot
  be opened. \<open>trj_trjfile\<close> is the open stream, given by the lines not read yet.
  \<open>trj_warnings\<close> collects the calls of \<^verbatim>\<open>warnings.warn\<close>.
\<close>

record trj_reader =
  trj_disk :: "string list option"
  trj_n_atoms :: nat
  trj_n_frames :: "nat option"
  trj_trjfile :: "string list option"
  trj_header :: string
  trj_ts :: timestep
  trj_lines_per_frame :: nat
  trj_last_per_line :: nat
  trj_periodic :: bool
  trj_offsets :: "nat list"
  trj_warnings :: "string list"

definition anyopen :: "string list option \<Rightarrow> error + string list" where
  "anyopen disk = (case disk of None \<Rightarrow> Inl (IOError, ''cannot open file'') | Some f \<Rightarrow> Inr f)"

text \<open>\<^verbatim>\<open>f.readline()\<close>: the next line, or the empty string at the end of the file.\<close>

fun readline :: "string list \<Rightarrow> string \<times> string list" where
  "readline [] = ([], [])"
| "readline (l # f) = (l, f)"

definition TRJReader_close :: "trj_reader \<Rightarrow> trj_reader" where
  "TRJReader_close r = r\<lparr>trj_trjfile := None\<rparr>"

definition TRJReader_open_trajectory :: "trj_reader \<Rightarrow> error + (trj_reader \<times> string list)" where
  "TRJReader_open_trajectory r =
     (case anyopen (trj_disk r) of
        Inl e \<Rightarrow> Inl e
      | Inr f \<Rightarrow>
          (case readline f of (h, f') \<Rightarrow>
             if length (py_rstrip h) > 80
             then Inl (OSError, ''Header of AMBER formatted trajectory has more than 80 chars. This is probably not a AMBER trajectory.'')
             else Inr (r\<lparr>trj_trjfile := Some f', trj_header := h,
                         trj_ts := (trj_ts r)\<lparr>ts_frame := - 1\<rparr>\<rparr>, f')))"

definition TRJReader_reopen :: "trj_reader \<Rightarrow> error + (trj_reader \<times> string list)" where
  "TRJReader_reopen r = TRJReader_open_trajectory (TRJReader_close r)"

text \<open>One line of coordinates: the parser for ten fields, and on its \<^verbatim>\<open>ValueError\<close> the
  parser for the short last line.\<close>

definition read_coord_line :: "fortran_reader \<Rightarrow> nat \<Rightarrow> string \<Rightarrow> error + real list" where
  "read_coord_line P last_per_line line =
     (case fr_read P 10 line of
        Some vs \<Rightarrow> Inr vs
      | None \<Rightarrow>
          (case fr_read P last_per_line line of
             Some vs \<Rightarrow> Inr vs
           | None \<Rightarrow> Inl (ValueError, ''Failed to read & convert'')))"

text \<open>The loop \<^verbatim>\<open>for number, line in enumerate(self.trjfile)\<close> of
  \<^verbatim>\<open>_read_next_timestep\<close>: it returns the coordinates read and the rest of the stream.\<close>

fun read_next_timestep_loop ::
  "fortran_reader \<Rightarrow> nat \<Rightarrow> int \<Rightarrow> nat \<Rightarrow> string list \<Rightarrow> real list \<Rightarrow> error + (real list \<times> string list)" where
  "read_next_timestep_loop P last_per_line lpf number [] coords = Inr (coords, [])"
| "read_next_timestep_loop P last_per_line lpf number (line # f) coords =
     (case read_coord_line P last_per_line line of
        Inl e \<Rightarrow> Inl e
      | Inr vs \<Rightarrow>
          if int number = lpf - 1 then Inr (coords @ vs, f)
          else read_next_timestep_loop P last_per_line lpf (Suc number) f (coords @ vs))"

definition TRJReader_read_next_timestep :: "fortran_reader \<Rightarrow> trj_reader \<Rightarrow> error + trj_reader" where
  "TRJReader_read_next_timestep P r0 =
     (case (case trj_trjfile r0 of None \<Rightarrow> TRJReader_open_trajectory r0 | Some f \<Rightarrow> Inr (r0, f)) of
        Inl e \<Rightarrow> Inl e
      | Inr (r, f) \<Rightarrow>
          (case read_next_timestep_loop P (trj_last_per_line r) (int (trj_lines_per_frame r)) 0 f [] of
             Inl e \<Rightarrow> Inl e
           | Inr (coords, f1) \<Rightarrow>
               if coords = [] then Inl (EOFError, [])
               else
                 (case (if trj_periodic r
                        then (case f1 of
                                [] \<Rightarrow> Inl (StopIteration, [])
                              | line # f2 \<Rightarrow>
                                  (case fr_read P 3 line of
                                     None \<Rightarrow> Inl (ValueError, ''Failed to read & convert'')
                                   | Some box \<Rightarrow> Inr (f2, Some (box @ [90, 90, 90]))))
                        else Inr (f1, ts_dimensions (trj_ts r))) of
                    Inl e \<Rightarrow> Inl e
                  | Inr (f2, dims) \<Rightarrow>
                      if length coords \<noteq> 3 * trj_n_atoms r
                      then Inl (ValueError, ''cannot reshape array'')
                      else Inr (r\<lparr>trj_trjfile := Some f2,
                                  trj_ts := (trj_ts r)\<lparr>ts_dimensions := dims, ts_pos := coords,
                                                         ts_frame := ts_frame (trj_ts r) + 1\<rparr>\<rparr>))))"

definition TRJReader_detect_amber_box :: "fortran_reader \<Rightarrow> trj_reader \<Rightarrow> error + (trj_reader \<times> bool)" where
  "TRJReader_detect_amber_box P r =
     (if trj_n_atoms r = 1
      then Inr (r\<lparr>trj_periodic := False,
                  trj_warnings := trj_warnings r @ [''Trajectory contains a single atom: assuming periodic=False'']\<rparr>,
                False)
      else
        (case TRJReader_reopen r of
           Inl e \<Rightarrow> Inl e
         | Inr (r1, _) \<Rightarrow>
             (case TRJReader_read_next_timestep P (r1\<lparr>trj_periodic := False\<rparr>) of
                Inl e \<Rightarrow> Inl e
              | Inr r2 \<Rightarrow>
                  (case trj_trjfile r2 of
                     None \<Rightarrow> Inl (TypeError, ''NoneType object is not an iterator'')
                   | Some [] \<Rightarrow> Inl (StopIteration, [])
                   | Some (line # f) \<Rightarrow>
                       if fr_number_of_matches P 10 line = 3
                       then (case fr_read P 3 line of
                               None \<Rightarrow> Inl (ValueError, ''Failed to read & convert'')
                             | Some box \<Rightarrow>
                                 Inr (TRJReader_close
                                        (r2\<lparr>trj_trjfile := Some f, trj_periodic := True,
                                            trj_ts := (trj_ts r2)\<lparr>ts_dimensions := Some (box @ [90, 90, 90])\<rparr>\<rparr>),
                                      True))
                       else Inr (TRJReader_close (r2\<lparr>trj_trjfile := Some f, trj_periodic := False\<rparr>),
                                 False)))))"

text \<open>The constructor: \<open>TRJReader_attributes\<close> are the attributes it assigns before
  it looks for a box. \<^verbatim>\<open>lines_per_frame\<close> is \<^verbatim>\<open>int(np.ceil(3.0 * n_atoms / 10))\<close>, written
  with integer division. \<^verbatim>\<open>self.periodic\<close> has no value before
  \<^verbatim>\<open>_detect_amber_box\<close> assigns one, which it does before any use; the record starts it
  at \<open>False\<close>.\<close>

definition TRJReader_attributes :: "string list option \<Rightarrow> nat \<Rightarrow> trj_reader" where
  "TRJReader_attributes disk n =
     \<lparr>trj_disk = disk, trj_n_atoms = n, trj_n_frames = None, trj_trjfile = None,
      trj_header = [], trj_ts = Timestep n False False,
      trj_lines_per_frame = (3 * n + 9) div 10, trj_last_per_line = 3 * n mod 10,
      trj_periodic = False, trj_offsets = [], trj_warnings = []\<rparr>"

definition TRJReader_init :: "fortran_reader \<Rightarrow> string list option \<Rightarrow> nat option \<Rightarrow> error + trj_reader" where
  "TRJReader_init P disk n_atoms =
     (case n_atoms of
        None \<Rightarrow> Inl (ValueError, ''AMBER TRJ reader REQUIRES the n_atoms keyword'')
      | Some n \<Rightarrow>
          (case TRJReader_detect_amber_box P (TRJReader_attributes disk n) of
             Inl e \<Rightarrow> Inl e
           | Inr (r, _) \<Rightarrow> TRJReader_read_next_timestep P r))"




text \<open>\<open>sequential_reads P k r\<close> calls \<^verbatim>\<open>_read_next_timestep\<close> \<open>k\<close> times in a row and
  succeeds when every call does.\<close>

fun sequential_reads :: "fortran_reader \<Rightarrow> nat \<Rightarrow> trj_reader \<Rightarrow> error + trj_reader" where
  "sequential_reads P 0 r = Inr r"
| "sequential_reads P (Suc k) r =
     (case TRJReader_read_next_timestep P r of
        Inl e \<Rightarrow> Inl e
      | Inr r' \<Rightarrow> sequential_reads P k r')"

text \<open>A complete frame of a file with \<open>n\<close> atoms: \<open>ceil(3 n / 10)\<close> lines that the
  coordinate parsers read into \<open>3 n\<close> numbers in all and, in a periodic file, one more
  line that the box parser reads. No line is empty (a line holds its line end).\<close>

definition coord_values :: "fortran_reader \<Rightarrow> nat \<Rightarrow> string \<Rightarrow> real list" where
  "coord_values P n line = (case read_coord_line P (3 * n mod 10) line of Inl e \<Rightarrow> [] | Inr vs \<Rightarrow> vs)"

definition complete_frame :: "fortran_reader \<Rightarrow> nat \<Rightarrow> bool \<Rightarrow> string list \<Rightarrow> bool" where
  "complete_frame P n per ls =
     (length ls = (3 * n + 9) div 10 + (if per then 1 else 0) \<and>
      list_all (\<lambda>l. l \<noteq> []) ls \<and>
      list_all (\<lambda>l. \<not> isl (read_coord_line P (3 * n mod 10) l)) (take ((3 * n + 9) div 10) ls) \<and>
      length (concat (map (coord_values P n) (take ((3 * n + 9) div 10) ls))) = 3 * n \<and>
      list_all (\<lambda>l. fr_read P 3 l \<noteq> None) (drop ((3 * n + 9) div 10) ls))"

text \<open>
  Modelled from the spec: \<^verbatim>\<open>util.FORTRANReader\<close> and its \<^verbatim>\<open>FixedcolumnEntry\<close> are
  not among the sources. After section 4.1 of the specification, entry \<open>i\<close> of the
  format \<^verbatim>\<open>kF8.3\<close> converts the eight characters from column \<open>8 i\<close> on with
  \<^verbatim>\<open>float\<close>, reading a line fails when one of its \<open>k\<close> entries does, and
  \<^verbatim>\<open>number_of_matches\<close> counts the entries that convert. \<open>py_float\<close> covers the plain
  decimal literals the format writes (an optional sign, digits, an optional point and
  digits, blanks around them); it serves to run the reader on concrete files, and the
  theorems on the reader hold for every \<open>fortran_reader\<close>.
\<close>

definition is_digit :: "char \<Rightarrow> bool" where
  "is_digit c = (c \<in> set ''0123456789'')"

definition digit_value :: "char \<Rightarrow> nat" where
  "digit_value c = length (takeWhile (\<lambda>d. d \<noteq> c) ''0123456789'')"

definition digits_value :: "string \<Rightarrow> nat" where
  "digits_value ds = foldl (\<lambda>a c. 10 * a + digit_value c) 0 ds"

definition unsigned_float :: "string \<Rightarrow> real option" where
  "unsigned_float u =
     (let ip = takeWhile is_digit u; rest = dropWhile is_digit u in
      case rest of
        [] \<Rightarrow> if ip = [] then None else Some (real (digits_value ip))
      | c # fp \<Rightarrow>
          if c = CHR ''.'' \<and> list_all is_digit fp \<and> (ip \<noteq> [] \<or> fp \<noteq> [])
          then Some (real (digits_value ip) + real (digits_value fp) / 10 ^ length fp)
          else None)"

definition py_float :: "string \<Rightarrow> real option" where
  "py_float s =
     (case py_strip s of
        [] \<Rightarrow> None
      | c # u \<Rightarrow>
          if c = CHR ''-'' then map_option uminus (unsigned_float u)
          else if c = CHR ''+'' then unsigned_float u
          else unsigned_float (c # u))"

definition FixedcolumnEntry_read :: "nat \<Rightarrow> string \<Rightarrow> real option" where
  "FixedcolumnEntry_read i line = py_float (take 8 (drop (8 * i) line))"

definition FORTRANReader_read :: "nat \<Rightarrow> string \<Rightarrow> real list option" where
  "FORTRANReader_read k line =
     (if list_all (\<lambda>i. FixedcolumnEntry_read i line \<noteq> None) [0..<k]
      then Some (map (\<lambda>i. the (FixedcolumnEntry_read i line)) [0..<k])
      else None)"

definition FORTRANReader_number_of_matches :: "nat \<Rightarrow> string \<Rightarrow> nat" where
  "FORTRANReader_number_of_matches k line =
     length (filter (\<lambda>i. FixedcolumnEntry_read i line \<noteq> None) [0..<k])"

definition FORTRANReader :: fortran_reader where
  "FORTRANReader =
     \<lparr>fr_read = FORTRANReader_read, fr_number_of_matches = FORTRANReader_number_of_matches\<rparr>"

section \<open>The binary reader \<^verbatim>\<open>NCDFReader\<close>\<close>

text \<open>
  The container as \<^verbatim>\<open>scipy.io.netcdf_file\<close> presents it: global attributes (\<open>None\<close> for
  an attribute the file does not have), the version byte, the dimensions (\<open>None\<close> for
  the size of the record dimension) and the variables in file order. Attribute values
  that the reader decodes with \<^verbatim>\<open>.decode('utf-8')\<close> are carried as the decoded text. A
  variable has its attributes \<^verbatim>\<open>units\<close> and \<^verbatim>\<open>scale_factor\<close> and, in \<open>nv_data\<close>, the list
  of its slices \<^verbatim>\<open>variable[frame]\<close>; array shapes are not modelled, an array being given
  by its elements.
\<close>

datatype pyval = PyNone | PyFloat real | PyInt int | PyStr string

record ncvariable =
  nv_type :: string
  nv_dims :: "string list"
  nv_units :: "string option"
  nv_scale_factor :: "pyval option"
  nv_data :: "ndarray list"
  nv_chars :: "string list"

record netcdf_file =
  nc_Conventions :: "string option"
  nc_ConventionVersion :: "string option"
  nc_program :: "string option"
  nc_programVersion :: "string option"
  nc_application :: "string option"
  nc_title :: "string option"
  nc_version_byte :: nat
  nc_dimensions :: "(string \<times> nat option) list"
  nc_variables :: "(string \<times> ncvariable) list"

text \<open>Sequencing of steps that may raise.\<close>

fun on_success :: "error + 'a \<Rightarrow> ('a \<Rightarrow> error + 'b) \<Rightarrow> error + 'b" where
  "on_success (Inl e) f = Inl e"
| "on_success (Inr x) f = f x"

text \<open>\<^verbatim>\<open>s.split(sep)\<close> cuts at every separator; \<^verbatim>\<open>s.split()\<close> cuts at runs of blanks and
  drops the empty words.\<close>

fun split_where :: "(char \<Rightarrow> bool) \<Rightarrow> string \<Rightarrow> string list" where
  "split_where p [] = [[]]"
| "split_where p (c # s) =
     (if p c then [] # split_where p s
      else (case split_where p s of [] \<Rightarrow> [[c]] | w # ws \<Rightarrow> (c # w) # ws))"

definition py_split_sep :: "char \<Rightarrow> string \<Rightarrow> string list" where
  "py_split_sep sep s = split_where (\<lambda>c. c = sep) s"

definition py_split :: "string \<Rightarrow> string list" where
  "py_split s = filter (\<lambda>w. w \<noteq> []) (split_where py_isspace s)"

text \<open>\<^verbatim>\<open>xs[i]\<close> for a Python integer \<open>i\<close>: negative indices count from the end.\<close>

definition py_index :: "'a list \<Rightarrow> int \<Rightarrow> error + 'a" where
  "py_index xs i =
     (if 0 \<le> i \<and> i < int (length xs) then Inr (xs ! nat i)
      else if - int (length xs) \<le> i \<and> i < 0 then Inr (xs ! nat (int (length xs) + i))
      else Inl (IndexError, ''index out of bounds''))"

text \<open>\<^verbatim>\<open>math.isclose(a, b)\<close> of the Python library, with its default tolerances
  \<^verbatim>\<open>rel_tol=1e-09\<close> and \<^verbatim>\<open>abs_tol=0.0\<close>, on real numbers.\<close>

definition isclose :: "real \<Rightarrow> real \<Rightarrow> bool" where
  "isclose a b = (a = b \<or> \<bar>a - b\<bar> \<le> max (1 / 10 ^ 9 * max \<bar>a\<bar> \<bar>b\<bar>) 0)"

text \<open>
  The unit conversions are methods of the base classes, which are not among the
  sources; the reader and the writer take them as parameters. The \<open>from_native\<close>
  functions give the effect of the in-place calls of \<^verbatim>\<open>_read_frame\<close> on their argument.
  \<open>time_of\<close> is the property \<^verbatim>\<open>ts.time\<close> of a frame buffer whose time has not been
  assigned.
\<close>

record unit_conversion =
  convert_pos_from_native :: "real list \<Rightarrow> real list"
  convert_time_from_native :: "ndarray \<Rightarrow> ndarray"
  convert_velocities_from_native :: "real list \<Rightarrow> real list"
  convert_forces_from_native :: "real list \<Rightarrow> real list"
  convert_pos_to_native :: "real list \<Rightarrow> real list"
  convert_time_to_native :: "ndarray \<Rightarrow> ndarray"
  convert_velocities_to_native :: "real list \<Rightarrow> real list"
  convert_forces_to_native :: "real list \<Rightarrow> real list"
  convert_dimensions_to_unitcell :: "timestep \<Rightarrow> error + real list"
  time_of :: "timestep \<Rightarrow> ndarray"

record ncdf_reader =
  ncr_trjfile :: "netcdf_file option"
  ncr_n_atoms :: nat
  ncr_n_frames :: nat
  ncr_remarks :: string
  ncr_scale_factors :: "string \<Rightarrow> real option option"
  ncr_has_velocities :: bool
  ncr_has_forces :: bool
  ncr_periodic :: bool
  ncr_current_frame :: int
  ncr_convert_units :: bool
  ncr_ts :: timestep
  ncr_warnings :: "string list"

definition NCDFReader_verify_units :: "string \<Rightarrow> string \<Rightarrow> error + unit" where
  "NCDFReader_verify_units eval_unit expected_units =
     (if eval_unit \<noteq> expected_units
      then Inl (NotImplementedError, ''NETCDFReader currently assumes that the trajectory was written in other units'')
      else Inr ())"

text \<open>\<^verbatim>\<open>self.trjfile.variables[name].units\<close>.\<close>

definition variable_units :: "netcdf_file \<Rightarrow> string \<Rightarrow> error + string" where
  "variable_units c name =
     (case map_of (nc_variables c) name of
        None \<Rightarrow> Inl (KeyError, name)
      | Some v \<Rightarrow>
          (case nv_units v of
             None \<Rightarrow> Inl (AttributeError, ''units'')
           | Some u \<Rightarrow> Inr u))"

definition verify_variable_units :: "netcdf_file \<Rightarrow> string \<Rightarrow> string \<Rightarrow> error + unit" where
  "verify_variable_units c name expected_units =
     on_success (variable_units c name) (\<lambda>u. NCDFReader_verify_units u expected_units)"

text \<open>The steps of \<^verbatim>\<open>NCDFReader.__init__\<close>, in the order of the source.\<close>

definition check_Conventions :: "netcdf_file \<Rightarrow> error + unit" where
  "check_Conventions c =
     (case nc_Conventions c of
        None \<Rightarrow> Inl (ValueError, ''NCDF trajectory is missing Conventions'')
      | Some conventions \<Rightarrow>
          if \<not> (''AMBER'' \<in> set (py_split_sep CHR '','' conventions) \<or>
                 ''AMBER'' \<in> set (py_split conventions))
          then Inl (TypeError, ''NCDF trajectory does not conform to AMBER specifications (AMBER must be one of the token in attribute Conventions)'')
          else Inr ())"

definition check_ConventionVersion :: "netcdf_file \<Rightarrow> error + string list" where
  "check_ConventionVersion c =
     (case nc_ConventionVersion c of
        None \<Rightarrow> Inl (ValueError, ''NCDF trajectory is missing ConventionVersion'')
      | Some v \<Rightarrow>
          if \<not> v = ''1.0''
          then Inr [''NCDF trajectory format is '' @ v @ '' but the reader implements format 1.0'']
          else Inr [])"

definition check_version_byte :: "netcdf_file \<Rightarrow> error + unit" where
  "check_version_byte c =
     (if \<not> nc_version_byte c = 2
      then Inl (TypeError, ''NCDF trajectory does not conform to AMBER specifications (NetCDF file does not use 64 bit offsets [version_byte = 2])'')
      else Inr ())"

definition check_spatial :: "netcdf_file \<Rightarrow> error + unit" where
  "check_spatial c =
     (case map_of (nc_dimensions c) ''spatial'' of
        None \<Rightarrow> Inl (ValueError, ''NCDF trajectory does not contain spatial dimension'')
      | Some d \<Rightarrow>
          if \<not> d = Some 3 then Inl (TypeError, ''Incorrect spatial value for NCDF trajectory file'')
          else Inr ())"

definition check_program :: "netcdf_file \<Rightarrow> string list" where
  "check_program c =
     (if \<not> (nc_program c \<noteq> None \<and> nc_programVersion c \<noteq> None)
      then [''NCDF trajectory may not fully adhere to AMBER standards as either the `program` or `programVersion` attributes are missing'']
      else [])"

definition get_n_atoms :: "netcdf_file \<Rightarrow> nat option \<Rightarrow> error + nat option" where
  "get_n_atoms c n_atoms =
     (case map_of (nc_dimensions c) ''atom'' of
        None \<Rightarrow> Inl (ValueError, ''NCDF trajectory does not contain atom information'')
      | Some d \<Rightarrow>
          if n_atoms \<noteq> None \<and> n_atoms \<noteq> d
          then Inl (ValueError, ''Supplied n_atoms != natom from ncdf. Note: n_atoms can be None and then the ncdf value is used!'')
          else Inr d)"

definition get_n_frames :: "netcdf_file \<Rightarrow> error + nat" where
  "get_n_frames c =
     (case map_of (nc_dimensions c) ''frame'' of
        None \<Rightarrow> Inl (ValueError, ''NCDF trajectory does not contain frame information'')
      | Some (Some k) \<Rightarrow> Inr k
      | Some None \<Rightarrow>
          (case map_of (nc_variables c) ''time'' of
             None \<Rightarrow> Inl (ValueError, ''NCDF trajectory does not contain frame information'')
           | Some v \<Rightarrow> Inr (length (nv_data v))))"

text \<open>The loop over \<^verbatim>\<open>self.trjfile.variables\<close> that collects the scale factors.\<close>

definition known_scale_factors :: "string \<Rightarrow> real option option" where
  "known_scale_factors =
     map_of [(''time'', None), (''cell_lengths'', None), (''cell_angles'', None),
             (''coordinates'', None), (''velocities'', None), (''forces'', None)]"

fun read_scale_factors ::
  "(string \<times> ncvariable) list \<Rightarrow> (string \<Rightarrow> real option option) \<Rightarrow> error + (string \<Rightarrow> real option option)" where
  "read_scale_factors [] scale_factors = Inr scale_factors"
| "read_scale_factors ((variable, v) # vs) scale_factors =
     (case nv_scale_factor v of
        None \<Rightarrow> read_scale_factors vs scale_factors
      | Some scale_factor \<Rightarrow>
          if scale_factors variable \<noteq> None
          then (case scale_factor of
                  PyFloat x \<Rightarrow> read_scale_factors vs (scale_factors(variable \<mapsto> Some x))
                | _ \<Rightarrow> Inl (TypeError, ''scale_factor is not a float''))
          else Inl (NotImplementedError, ''scale_factors for variable '' @ variable @ '' are not implemented''))"

definition check_optional_units :: "netcdf_file \<Rightarrow> error + unit" where
  "check_optional_units c =
     on_success
       (if map_of (nc_variables c) ''velocities'' \<noteq> None
        then verify_variable_units c ''velocities'' ''angstrom/picosecond'' else Inr ())
       (\<lambda>_. on_success
          (if map_of (nc_variables c) ''forces'' \<noteq> None
           then verify_variable_units c ''forces'' ''kilocalorie/mole/angstrom'' else Inr ())
          (\<lambda>_. if map_of (nc_variables c) ''cell_lengths'' \<noteq> None
               then on_success (verify_variable_units c ''cell_lengths'' ''angstrom'')
                      (\<lambda>_. verify_variable_units c ''cell_angles'' ''degree'')
               else Inr ()))"

text \<open>\<open>NCDFReader_open\<close> is the constructor up to the assignment of \<^verbatim>\<open>self.ts\<close>: the
  validation of the container and the attributes of the reader. \<^verbatim>\<open>Timestep(None)\<close>, for
  an atom dimension without a size, is a \<^verbatim>\<open>TypeError\<close>.\<close>

definition NCDFReader_open :: "netcdf_file \<Rightarrow> nat option \<Rightarrow> bool \<Rightarrow> error + ncdf_reader" where
  "NCDFReader_open c n_atoms convert_units =
     on_success (check_Conventions c) (\<lambda>_.
     on_success (check_ConventionVersion c) (\<lambda>version_warnings.
     on_success (check_version_byte c) (\<lambda>_.
     on_success (check_spatial c) (\<lambda>_.
     on_success (get_n_atoms c n_atoms) (\<lambda>atoms.
     on_success (get_n_frames c) (\<lambda>frames.
     on_success (verify_variable_units c ''time'' ''picosecond'') (\<lambda>_.
     on_success (verify_variable_units c ''coordinates'' ''angstrom'') (\<lambda>_.
     on_success (read_scale_factors (nc_variables c) known_scale_factors) (\<lambda>scale_factors.
     on_success (check_optional_units c) (\<lambda>_.
       (case atoms of
          None \<Rightarrow> Inl (TypeError, ''n_atoms is None'')
        | Some n \<Rightarrow>
            Inr \<lparr>ncr_trjfile = Some c, ncr_n_atoms = n, ncr_n_frames = frames,
                 ncr_remarks = (case nc_title c of None \<Rightarrow> [] | Some t \<Rightarrow> t),
                 ncr_scale_factors = scale_factors,
                 ncr_has_velocities = (map_of (nc_variables c) ''velocities'' \<noteq> None),
                 ncr_has_forces = (map_of (nc_variables c) ''forces'' \<noteq> None),
                 ncr_periodic = (map_of (nc_variables c) ''cell_lengths'' \<noteq> None),
                 ncr_current_frame = 0, ncr_convert_units = convert_units,
                 ncr_ts = Timestep n (map_of (nc_variables c) ''velocities'' \<noteq> None)
                            (map_of (nc_variables c) ''forces'' \<noteq> None),
                 ncr_warnings = version_warnings @ check_program c\<rparr>)))))))))))"

definition NCDFReader_get_var_and_scale :: "ncdf_reader \<Rightarrow> string \<Rightarrow> int \<Rightarrow> error + ndarray" where
  "NCDFReader_get_var_and_scale r variable frame =
     (case ncr_scale_factors r variable of
        None \<Rightarrow> Inl (KeyError, variable)
      | Some scale_factor \<Rightarrow>
          (case ncr_trjfile r of
             None \<Rightarrow> Inl (AttributeError, ''NoneType object has no attribute variables'')
           | Some c \<Rightarrow>
               (case map_of (nc_variables c) variable of
                  None \<Rightarrow> Inl (KeyError, variable)
                | Some v \<Rightarrow>
                    on_success (py_index (nv_data v) frame) (\<lambda>raw.
                      if scale_factor = None \<or> isclose (the scale_factor) 1 then Inr raw
                      else Inr (nd_mul raw (the scale_factor))))))"

fun nd_elems :: "ndarray \<Rightarrow> real list" where
  "nd_elems (Scalar x) = [x]"
| "nd_elems (Array xs) = xs"

definition NCDFReader_read_frame :: "unit_conversion \<Rightarrow> ncdf_reader \<Rightarrow> int \<Rightarrow> error + ncdf_reader" where
  "NCDFReader_read_frame U r frame =
     (if ncr_trjfile r = None then Inl (IOError, ''Trajectory is closed'')
      else if frame \<ge> int (ncr_n_frames r) \<or> frame < 0
      then Inl (IndexError, ''frame index must be 0 <= frame < n_frames'')
      else
        on_success (NCDFReader_get_var_and_scale r ''coordinates'' frame) (\<lambda>pos.
        on_success (NCDFReader_get_var_and_scale r ''time'' frame) (\<lambda>time.
        on_success (if ncr_has_velocities r
                    then on_success (NCDFReader_get_var_and_scale r ''velocities'' frame)
                           (\<lambda>v. Inr (Some (nd_elems v)))
                    else Inr (ts_velocities (ncr_ts r))) (\<lambda>velocities.
        on_success (if ncr_has_forces r
                    then on_success (NCDFReader_get_var_and_scale r ''forces'' frame)
                           (\<lambda>v. Inr (Some (nd_elems v)))
                    else Inr (ts_forces (ncr_ts r))) (\<lambda>forces.
        on_success (if ncr_periodic r
                    then on_success (NCDFReader_get_var_and_scale r ''cell_lengths'' frame) (\<lambda>l.
                         on_success (NCDFReader_get_var_and_scale r ''cell_angles'' frame) (\<lambda>a.
                           Inr (Some (nd_elems l @ nd_elems a))))
                    else Inr (ts_dimensions (ncr_ts r))) (\<lambda>dimensions.
          Inr (r\<lparr>ncr_current_frame := frame,
                 ncr_ts :=
                   (if ncr_convert_units r
                    then (ncr_ts r)
                           \<lparr>ts_frame := frame,
                            ts_time := Some (convert_time_from_native U time),
                            ts_pos := convert_pos_from_native U (nd_elems pos),
                            ts_velocities :=
                              (if ncr_has_velocities r
                               then map_option (convert_velocities_from_native U) velocities
                               else velocities),
                            ts_forces :=
                              (if ncr_has_forces r
                               then map_option (convert_forces_from_native U) forces
                               else forces),
                            ts_dimensions :=
                              (if ncr_periodic r
                               then map_option (\<lambda>d. convert_pos_from_native U (take 3 d) @ drop 3 d) dimensions
                               else dimensions)\<rparr>
                    else (ncr_ts r)
                           \<lparr>ts_frame := frame, ts_time := Some time, ts_pos := nd_elems pos,
                            ts_velocities := velocities, ts_forces := forces,
                            ts_dimensions := dimensions\<rparr>)\<rparr>)))))))"

definition NCDFReader_init ::
  "unit_conversion \<Rightarrow> netcdf_file \<Rightarrow> nat option \<Rightarrow> bool \<Rightarrow> error + ncdf_reader" where
  "NCDFReader_init U c n_atoms convert_units =
     on_success (NCDFReader_open c n_atoms convert_units) (\<lambda>r. NCDFReader_read_frame U r 0)"

definition NCDFReader_read_next_timestep :: "unit_conversion \<Rightarrow> ncdf_reader \<Rightarrow> error + ncdf_reader" where
  "NCDFReader_read_next_timestep U r =
     (case NCDFReader_read_frame U r (ncr_current_frame r + 1) of
        Inl (k, m) \<Rightarrow> if k = IndexError then Inl (IOError, []) else Inl (k, m)
      | Inr r' \<Rightarrow> Inr r')"

definition NCDFReader_get_dt :: "ncdf_reader \<Rightarrow> error + ndarray" where
  "NCDFReader_get_dt r =
     (case ncr_trjfile r of
        None \<Rightarrow> Inl (AttributeError, ''NoneType object has no attribute variables'')
      | Some c \<Rightarrow>
          (case map_of (nc_variables c) ''time'' of
             None \<Rightarrow> Inl (KeyError, ''time'')
           | Some v \<Rightarrow>
               (case py_index (nv_data v) 1 of
                  Inl (k, m) \<Rightarrow> if k = IndexError then Inl (AttributeError, []) else Inl (k, m)
                | Inr t1 \<Rightarrow>
                    (case py_index (nv_data v) 0 of
                       Inl (k, m) \<Rightarrow> if k = IndexError then Inl (AttributeError, []) else Inl (k, m)
                     | Inr t0 \<Rightarrow> nd_sub t1 t0))))"

definition NCDFReader_close :: "ncdf_reader \<Rightarrow> ncdf_reader" where
  "NCDFReader_close r = r\<lparr>ncr_trjfile := None\<rparr>"

text \<open>
  Modelled from the spec: the property \<^verbatim>\<open>dt\<close> of the caller, which is not among the
  sources. After section 4.3 of the specification and the docstring of \<^verbatim>\<open>_get_dt\<close>, a
  \<open>dt\<close> that was supplied is returned; otherwise the value of \<^verbatim>\<open>_get_dt\<close> is; and when
  \<^verbatim>\<open>_get_dt\<close> raises \<^verbatim>\<open>AttributeError\<close>, the caller warns and returns the default of
  1.0 ps. Any other exception propagates. The result carries the warnings.
\<close>

definition caller_dt :: "ndarray option \<Rightarrow> ncdf_reader \<Rightarrow> error + (ndarray \<times> string list)" where
  "caller_dt supplied r =
     (case supplied of
        Some dt \<Rightarrow> Inr (dt, [])
      | None \<Rightarrow>
          (case NCDFReader_get_dt r of
             Inr dt \<Rightarrow> Inr (dt, [])
           | Inl (k, m) \<Rightarrow>
               if k = AttributeError
               then Inr (Scalar 1, [''Reader has no dt information, set to 1.0 ps''])
               else Inl (k, m)))"

section \<open>The binary writer \<^verbatim>\<open>NCDFWriter\<close>\<close>

text \<open>
  The writer acts on the file system, so its methods pass a \<open>world\<close> along: the
  containers on disk by file name, whether the module \<^verbatim>\<open>netCDF4\<close> could be imported,
  and the warnings issued. A method maps the writer and the world to the exception it
  raised, if any, and the writer and the world it leaves behind.
\<close>

record world =
  w_files :: "string \<Rightarrow> netcdf_file option"
  w_netCDF4 :: bool
  w_warnings :: "string list"

record ncdf_writer =
  ncw_filename :: string
  ncw_n_atoms :: int
  ncw_convert_units :: bool
  ncw_remarks :: string
  ncw_first_frame :: bool
  ncw_trjfile :: "netcdf_file option"
  ncw_periodic :: "bool option"
  ncw_has_velocities :: bool
  ncw_has_forces :: bool
  ncw_scale_factors :: "(string \<times> real option) list"
  ncw_curr_frame :: nat

record writer_args =
  wa_filename :: string
  wa_n_atoms :: int
  wa_remarks :: "string option"
  wa_convert_units :: bool
  wa_velocities :: bool
  wa_forces :: bool
  wa_scale_time :: pyval
  wa_scale_cell_lengths :: pyval
  wa_scale_cell_angles :: pyval
  wa_scale_coordinates :: pyval
  wa_scale_velocities :: pyval
  wa_scale_forces :: pyval

text \<open>The loop over \<^verbatim>\<open>self.scale_factors.values()\<close> of the constructor. A value that
  passes is \<^verbatim>\<open>None\<close> or a float, and the writer record keeps it as such.\<close>

fun check_scale_factors :: "(string \<times> pyval) list \<Rightarrow> error + (string \<times> real option) list" where
  "check_scale_factors [] = Inr []"
| "check_scale_factors ((name, v) # vs) =
     (case v of
        PyNone \<Rightarrow> on_success (check_scale_factors vs) (\<lambda>rest. Inr ((name, None) # rest))
      | PyFloat x \<Rightarrow> on_success (check_scale_factors vs) (\<lambda>rest. Inr ((name, Some x) # rest))
      | _ \<Rightarrow> Inl (TypeError, ''scale_factor is not a float''))"

definition NCDFWriter_init :: "writer_args \<Rightarrow> world \<Rightarrow> (error + ncdf_writer) \<times> world" where
  "NCDFWriter_init a W =
     (if wa_n_atoms a = 0 then (Inl (ValueError, ''NCDFWriter: no atoms in output trajectory''), W)
      else
        (case check_scale_factors
                [(''time'', wa_scale_time a), (''cell_lengths'', wa_scale_cell_lengths a),
                 (''cell_angles'', wa_scale_cell_angles a), (''coordinates'', wa_scale_coordinates a),
                 (''velocities'', wa_scale_velocities a), (''forces'', wa_scale_forces a)] of
           Inl e \<Rightarrow> (Inl e, W)
         | Inr scale_factors \<Rightarrow>
             (Inr \<lparr>ncw_filename = wa_filename a, ncw_n_atoms = wa_n_atoms a,
                   ncw_convert_units = wa_convert_units a,
                   ncw_remarks =
                     (case wa_remarks a of
                        None \<Rightarrow> ''AMBER NetCDF format (MDAnalysis.coordinates.trj.NCDFWriter)''
                      | Some t \<Rightarrow>
                          if t = [] then ''AMBER NetCDF format (MDAnalysis.coordinates.trj.NCDFWriter)''
                          else t),
                   ncw_first_frame = True, ncw_trjfile = None, ncw_periodic = None,
                   ncw_has_velocities = wa_velocities a, ncw_has_forces = wa_forces a,
                   ncw_scale_factors = scale_factors, ncw_curr_frame = 0\<rparr>, W)))"

text \<open>The container a fresh \<^verbatim>\<open>netCDF4.Dataset(filename, 'w', format='NETCDF3_64BIT')\<close> or
  \<^verbatim>\<open>scipy.io.netcdf_file(filename, mode='w', version=2)\<close> holds, and a variable as
  \<^verbatim>\<open>createVariable\<close> makes it.\<close>

definition new_dataset :: netcdf_file where
  "new_dataset =
     \<lparr>nc_Conventions = None, nc_ConventionVersion = None, nc_program = None,
      nc_programVersion = None, nc_application = None, nc_title = None, nc_version_byte = 2,
      nc_dimensions = [], nc_variables = []\<rparr>"

definition createVariable :: "string \<Rightarrow> string list \<Rightarrow> ncvariable" where
  "createVariable datatype dims =
     \<lparr>nv_type = datatype, nv_dims = dims, nv_units = None, nv_scale_factor = None,
      nv_data = [], nv_chars = []\<rparr>"

text \<open>A data variable with its units and, when the configured scale factor is truthy
  (neither \<^verbatim>\<open>None\<close> nor 0.0), its \<^verbatim>\<open>scale_factor\<close> attribute.\<close>

definition data_variable ::
  "ncdf_writer \<Rightarrow> string \<Rightarrow> string \<Rightarrow> string list \<Rightarrow> string \<Rightarrow> error + (string \<times> ncvariable)" where
  "data_variable w name datatype dims units =
     (case map_of (ncw_scale_factors w) name of
        None \<Rightarrow> Inl (KeyError, name)
      | Some sf \<Rightarrow>
          Inr (name, (createVariable datatype dims)
                       \<lparr>nv_units := Some units,
                        nv_scale_factor :=
                          (if sf \<noteq> None \<and> sf \<noteq> Some 0 then Some (PyFloat (the sf)) else None)\<rparr>))"

definition init_netcdf_variables :: "ncdf_writer \<Rightarrow> bool \<Rightarrow> error + (string \<times> ncvariable) list" where
  "init_netcdf_variables w periodic =
     on_success (data_variable w ''coordinates'' ''f4'' [''frame'', ''atom'', ''spatial''] ''angstrom'') (\<lambda>coords.
     on_success (data_variable w ''time'' ''f4'' [''frame''] ''picosecond'') (\<lambda>time.
     on_success
       (if periodic
        then on_success (data_variable w ''cell_lengths'' ''f8'' [''frame'', ''cell_spatial''] ''angstrom'') (\<lambda>cell_lengths.
             on_success (data_variable w ''cell_angles'' ''f8'' [''frame'', ''cell_angular''] ''degree'') (\<lambda>cell_angles.
               Inr [cell_lengths,
                    (''cell_spatial'', (createVariable ''c'' [''cell_spatial''])\<lparr>nv_chars := [''a'', ''b'', ''c'']\<rparr>),
                    cell_angles,
                    (''cell_angular'', (createVariable ''c'' [''cell_angular'', ''label''])
                                         \<lparr>nv_chars := [''alpha'', ''beta '', ''gamma'']\<rparr>)]))
        else Inr []) (\<lambda>cell.
     on_success
       (if ncw_has_velocities w
        then on_success (data_variable w ''velocities'' ''f4'' [''frame'', ''atom'', ''spatial''] ''angstrom/picosecond'')
               (\<lambda>velocs. Inr [velocs])
        else Inr []) (\<lambda>velocs.
     on_success
       (if ncw_has_forces w
        then on_success (data_variable w ''forces'' ''f4'' [''frame'', ''atom'', ''spatial''] ''kilocalorie/mole/angstrom'')
               (\<lambda>forces. Inr [forces])
        else Inr []) (\<lambda>forces.
       Inr ([coords, (''spatial'', (createVariable ''c'' [''spatial''])\<lparr>nv_chars := [''x'', ''y'', ''z'']\<rparr>), time]
            @ cell @ velocs @ forces))))))"

text \<open>\<^verbatim>\<open>_init_netcdf\<close>. Opening the data set creates the file; \<^verbatim>\<open>ncfile.sync()\<close> puts the
  schema on disk. A negative atom count makes the library refuse the atom dimension
  after the file was created.\<close>

definition NCDFWriter_init_netcdf ::
  "bool \<Rightarrow> ncdf_writer \<times> world \<Rightarrow> error option \<times> (ncdf_writer \<times> world)" where
  "NCDFWriter_init_netcdf periodic = (\<lambda>(w, W).
     if \<not> ncw_first_frame w
     then (Some (IOError, ''Attempt to write to closed file '' @ ncw_filename w), (w, W))
     else
       (case (if ncw_n_atoms w < 0 then Inl (ValueError, ''negative dimension size'')
              else init_netcdf_variables w periodic) of
          Inl e \<Rightarrow>
            (Some e,
             (w, W\<lparr>w_files := (w_files W)(ncw_filename w \<mapsto> new_dataset),
                   w_warnings := w_warnings W @
                     (if w_netCDF4 W then []
                      else [''Could not find netCDF4 module. Falling back to MUCH slower scipy.io.netcdf implementation for writing.''])\<rparr>))
        | Inr variables \<Rightarrow>
            (None,
             (w\<lparr>ncw_periodic := Some periodic, ncw_first_frame := False,
                ncw_trjfile :=
                  Some (new_dataset
                          \<lparr>nc_Conventions := Some ''AMBER'', nc_ConventionVersion := Some ''1.0'',
                           nc_program := Some ''MDAnalysis.coordinates.TRJ.NCDFWriter'',
                           nc_programVersion := Some ''MDAnalysis.__version__'',
                           nc_application := Some ''MDAnalysis'',
                           nc_dimensions :=
                             [(''frame'', None), (''atom'', Some (nat (ncw_n_atoms w))),
                              (''spatial'', Some 3), (''cell_spatial'', Some 3),
                              (''cell_angular'', Some 3), (''label'', Some 5)],
                           nc_variables := variables\<rparr>)\<rparr>,
              W\<lparr>w_files := (w_files W)(ncw_filename w \<mapsto>
                     new_dataset
                       \<lparr>nc_Conventions := Some ''AMBER'', nc_ConventionVersion := Some ''1.0'',
                        nc_program := Some ''MDAnalysis.coordinates.TRJ.NCDFWriter'',
                        nc_programVersion := Some ''MDAnalysis.__version__'',
                        nc_application := Some ''MDAnalysis'',
                        nc_dimensions :=
                          [(''frame'', None), (''atom'', Some (nat (ncw_n_atoms w))),
                           (''spatial'', Some 3), (''cell_spatial'', Some 3),
                           (''cell_angular'', Some 3), (''label'', Some 5)],
                        nc_variables := variables\<rparr>),
                w_warnings := w_warnings W @
                  (if w_netCDF4 W then []
                   else [''Could not find netCDF4 module. Falling back to MUCH slower scipy.io.netcdf implementation for writing.''])\<rparr>))))"

definition NCDFWriter_is_periodic :: "timestep \<Rightarrow> bool" where
  "NCDFWriter_is_periodic ts = (ts_dimensions ts \<noteq> None)"

text \<open>\<^verbatim>\<open>variable[k] = v\<close> on a variable along the record dimension: the record \<open>k\<close> is
  replaced, or the variable grows to hold it (records in between hold fill values,
  shown as empty arrays).\<close>

definition assign_record :: "ndarray list \<Rightarrow> nat \<Rightarrow> ndarray \<Rightarrow> ndarray list" where
  "assign_record xs k v =
     (if k < length xs then xs[k := v] else xs @ replicate (k - length xs) (Array []) @ [v])"

definition NCDFWriter_set_frame_var_and_scale ::
  "string \<Rightarrow> ndarray \<Rightarrow> ncdf_writer \<Rightarrow> error + ncdf_writer" where
  "NCDFWriter_set_frame_var_and_scale varname data w =
     (case map_of (ncw_scale_factors w) varname of
        None \<Rightarrow> Inl (KeyError, varname)
      | Some sfactor \<Rightarrow>
          (case ncw_trjfile w of
             None \<Rightarrow> Inl (AttributeError, ''NoneType object has no attribute variables'')
           | Some nc \<Rightarrow>
               (case map_of (nc_variables nc) varname of
                  None \<Rightarrow> Inl (KeyError, varname)
                | Some v \<Rightarrow>
                    Inr (w\<lparr>ncw_trjfile := Some (nc\<lparr>nc_variables :=
                             map (\<lambda>(name, x).
                                    if name = varname
                                    then (name, x\<lparr>nv_data :=
                                            assign_record (nv_data x) (ncw_curr_frame w)
                                              (if sfactor = None \<or> isclose (the sfactor) 1 then data
                                               else nd_div data (the sfactor))\<rparr>)
                                    else (name, x))
                                 (nc_variables nc)\<rparr>)\<rparr>))))"

text \<open>Sequencing of steps that change the state and may raise.\<close>

fun and_then :: "error option \<times> 's \<Rightarrow> ('s \<Rightarrow> error option \<times> 's) \<Rightarrow> error option \<times> 's" where
  "and_then (Some e, s) f = (Some e, s)"
| "and_then (None, s) f = f s"

definition set_var :: "string \<Rightarrow> ndarray \<Rightarrow> ncdf_writer \<Rightarrow> error option \<times> ncdf_writer" where
  "set_var varname data w =
     (case NCDFWriter_set_frame_var_and_scale varname data w of
        Inl e \<Rightarrow> (Some e, w)
      | Inr w' \<Rightarrow> (None, w'))"

definition NCDFWriter_write_next_timestep ::
  "unit_conversion \<Rightarrow> timestep \<Rightarrow> ncdf_writer \<times> world \<Rightarrow> error option \<times> (ncdf_writer \<times> world)" where
  "NCDFWriter_write_next_timestep U ts = (\<lambda>(w, W).
     (case (if ncw_convert_units w
            then on_success (convert_dimensions_to_unitcell U ts) (\<lambda>unitcell.
                   Inr (Array (convert_pos_to_native U (ts_pos ts)),
                        convert_time_to_native U (case ts_time ts of None \<Rightarrow> time_of U ts | Some t \<Rightarrow> t),
                        Some unitcell))
            else Inr (Array (ts_pos ts),
                      (case ts_time ts of None \<Rightarrow> time_of U ts | Some t \<Rightarrow> t),
                      ts_dimensions ts)) of
        Inl e \<Rightarrow> (Some e, (w, W))
      | Inr (pos, time, unitcell) \<Rightarrow>
          (case and_then (and_then (and_then (and_then
                  (set_var ''coordinates'' pos w)
                  (set_var ''time'' time))
                  (\<lambda>w1. if ncw_periodic w1 = Some True
                        then (case unitcell of
                                None \<Rightarrow> (Some (TypeError, ''NoneType object is not subscriptable''), w1)
                              | Some u \<Rightarrow>
                                  and_then (set_var ''cell_lengths'' (Array (take 3 u)) w1)
                                    (set_var ''cell_angles'' (Array (drop 3 u))))
                        else (None, w1)))
                  (\<lambda>w2. if ncw_has_velocities w2
                        then (case ts_velocities ts of
                                None \<Rightarrow> (Some (NoDataError, ''This Timestep has no velocities information''), w2)
                              | Some v \<Rightarrow>
                                  set_var ''velocities''
                                    (Array (if ncw_convert_units w2 then convert_velocities_to_native U v else v)) w2)
                        else (None, w2)))
                  (\<lambda>w3. if ncw_has_forces w3
                        then (case ts_forces ts of
                                None \<Rightarrow> (Some (NoDataError, ''This Timestep has no force information''), w3)
                              | Some f \<Rightarrow>
                                  set_var ''forces''
                                    (Array (if ncw_convert_units w3 then convert_forces_to_native U f else f)) w3)
                        else (None, w3)) of
             (Some e, w') \<Rightarrow> (Some e, (w', W))
           | (None, w') \<Rightarrow>
               (None, (w'\<lparr>ncw_curr_frame := ncw_curr_frame w' + 1\<rparr>,
                       W\<lparr>w_files := (w_files W)(ncw_filename w' := ncw_trjfile w')\<rparr>)))))"

text \<open>The object handed to \<^verbatim>\<open>_write_next_frame\<close>: one with an attribute \<^verbatim>\<open>ts\<close>, one with
  \<^verbatim>\<open>trajectory.ts\<close>, or anything else.\<close>

datatype source = AtomGroup timestep | Universe timestep | OtherObject

definition NCDFWriter_write_next_frame ::
  "unit_conversion \<Rightarrow> source \<Rightarrow> ncdf_writer \<times> world \<Rightarrow> error option \<times> (ncdf_writer \<times> world)" where
  "NCDFWriter_write_next_frame U ag = (\<lambda>(w, W).
     (case (case ag of AtomGroup ts \<Rightarrow> Some ts | Universe ts \<Rightarrow> Some ts | OtherObject \<Rightarrow> None) of
        None \<Rightarrow> (Some (TypeError, ''Input obj is neither an AtomGroup or Universe''), (w, W))
      | Some ts \<Rightarrow>
          if int (ts_n_atoms ts) \<noteq> ncw_n_atoms w
          then (Some (IOError, ''NCDFWriter: Timestep does not have the correct number of atoms''), (w, W))
          else and_then
                 (if ncw_trjfile w = None
                  then NCDFWriter_init_netcdf (NCDFWriter_is_periodic ts) (w, W)
                  else (None, (w, W)))
                 (NCDFWriter_write_next_timestep U ts)))"

definition NCDFWriter_close :: "ncdf_writer \<times> world \<Rightarrow> ncdf_writer \<times> world" where
  "NCDFWriter_close = (\<lambda>(w, W).
     if ncw_trjfile w \<noteq> None
     then (w\<lparr>ncw_trjfile := None\<rparr>, W\<lparr>w_files := (w_files W)(ncw_filename w := ncw_trjfile w)\<rparr>)
     else (w, W))"

text \<open>A history of calls on a writer: frame writes, whose exceptions the caller catches,
  and closes. \<open>apply_ops\<close> runs it and gives the writer and the world it leaves.\<close>

datatype writer_op = Write source | Close

fun apply_ops ::
  "unit_conversion \<Rightarrow> writer_op list \<Rightarrow> ncdf_writer \<times> world \<Rightarrow> ncdf_writer \<times> world" where
  "apply_ops U [] s = s"
| "apply_ops U (Write ag # ops) s = apply_ops U ops (snd (NCDFWriter_write_next_frame U ag s))"
| "apply_ops U (Close # ops) s = apply_ops U ops (NCDFWriter_close s)"

text \<open>What the steps of a frame write leave alone.\<close>

definition keeps :: "ncdf_writer \<Rightarrow> ncdf_writer \<Rightarrow> bool" where
  "keeps w w' \<longleftrightarrow> ncw_first_frame w' = ncw_first_frame w \<and> ncw_filename w' = ncw_filename w \<and>
     ncw_n_atoms w' = ncw_n_atoms w \<and> (ncw_trjfile w \<noteq> None \<longrightarrow> ncw_trjfile w' \<noteq> None)"

section \<open>Sample data\<close>

text \<open>
  Concrete values on which the functions above are run: conversions that change
  nothing (the native units of the format are the working units), a world without
  files, arguments for the writer, and a conforming container of one atom with given
  attributes and slices for the coordinates and the time.
\<close>

definition no_conversion :: unit_conversion where
  "no_conversion =
     \<lparr>convert_pos_from_native = (\<lambda>x. x), convert_time_from_native = (\<lambda>x. x),
      convert_velocities_from_native = (\<lambda>x. x), convert_forces_from_native = (\<lambda>x. x),
      convert_pos_to_native = (\<lambda>x. x), convert_time_to_native = (\<lambda>x. x),
      convert_velocities_to_native = (\<lambda>x. x), convert_forces_to_native = (\<lambda>x. x),
      convert_dimensions_to_unitcell =
        (\<lambda>ts. case ts_dimensions ts of
                None \<Rightarrow> Inl (TypeError, ''NoneType object is not subscriptable'')
              | Some d \<Rightarrow> Inr d),
      time_of = (\<lambda>ts. Scalar (of_int (ts_frame ts)))\<rparr>"

definition empty_world :: world where
  "empty_world = \<lparr>w_files = (\<lambda>name. None), w_netCDF4 = True, w_warnings = []\<rparr>"

definition sample_args :: "int \<Rightarrow> pyval \<Rightarrow> writer_args" where
  "sample_args n scale_coordinates =
     \<lparr>wa_filename = ''out.ncdf'', wa_n_atoms = n, wa_remarks = None, wa_convert_units = True,
      wa_velocities = False, wa_forces = False, wa_scale_time = PyNone,
      wa_scale_cell_lengths = PyNone, wa_scale_cell_angles = PyNone,
      wa_scale_coordinates = scale_coordinates, wa_scale_velocities = PyNone,
      wa_scale_forces = PyNone\<rparr>"

definition sample_frame :: "real list \<Rightarrow> real \<Rightarrow> timestep" where
  "sample_frame pos time =
     \<lparr>ts_n_atoms = 1, ts_frame = 0, ts_time = Some (Scalar time), ts_pos = pos,
      ts_velocities = None, ts_forces = None, ts_dimensions = None\<rparr>"

definition sample_container ::
  "string \<Rightarrow> string \<Rightarrow> nat \<Rightarrow> string \<Rightarrow> pyval option \<Rightarrow> ndarray list \<Rightarrow> ndarray list \<Rightarrow> netcdf_file" where
  "sample_container conventions version version_byte units scale_factor coordinates time_values =
     \<lparr>nc_Conventions = Some conventions, nc_ConventionVersion = Some version,
      nc_program = Some ''sander'', nc_programVersion = Some ''20.0'', nc_application = None,
      nc_title = None, nc_version_byte = version_byte,
      nc_dimensions = [(''frame'', None), (''atom'', Some 1), (''spatial'', Some 3)],
      nc_variables =
        [(''coordinates'',
          \<lparr>nv_type = ''f4'', nv_dims = [''frame'', ''atom'', ''spatial''], nv_units = Some units,
           nv_scale_factor = scale_factor, nv_data = coordinates, nv_chars = []\<rparr>),
         (''time'',
          \<lparr>nv_type = ''f4'', nv_dims = [''frame''], nv_units = Some ''picosecond'',
           nv_scale_factor = None, nv_data = time_values, nv_chars = []\<rparr>)]\<rparr>"

section \<open>Properties of the ASCII reader\<close>

subsection \<open>Reading frames in sequence\<close>

lemma loop_reads_lines:
  assumes "\<forall>l\<in>set ls. read_coord_line P lastn l = Inr (vals l)" "ls \<noteq> []" "number + length ls = lpf"
  shows "read_next_timestep_loop P lastn (int lpf) number (ls @ f) coords = Inr (coords @ concat (map vals ls), f)"
  using assms
proof (induction ls arbitrary: number coords)
  case Nil
  then show ?case by simp
next
  case (Cons l ls)
  show ?case
  proof (cases "ls = []")
    case True
    then show ?thesis using Cons.prems by auto
  next
    case False
    have "read_next_timestep_loop P lastn (int lpf) (Suc number) (ls @ f) (coords @ vals l) =
            Inr ((coords @ vals l) @ concat (map vals ls), f)"
      using Cons.prems False by (intro Cons.IH) auto
    moreover have "int number \<noteq> int lpf - 1" using Cons.prems False by (cases ls) auto
    ultimately show ?thesis using Cons.prems by simp
  qed
qed

lemma read_next_complete_frame:
  assumes cf: "complete_frame P n per fr" and n: "0 < n"
    and r: "trj_trjfile r = Some (fr @ f)" "trj_n_atoms r = n"
      "trj_lines_per_frame r = (3 * n + 9) div 10" "trj_last_per_line r = 3 * n mod 10"
      "trj_periodic r = per"
  shows "\<exists>r'. TRJReader_read_next_timestep P r = Inr r' \<and> trj_trjfile r' = Some f \<and>
     trj_n_atoms r' = n \<and> trj_lines_per_frame r' = (3 * n + 9) div 10 \<and>
     trj_last_per_line r' = 3 * n mod 10 \<and> trj_periodic r' = per \<and>
     ts_frame (trj_ts r') = ts_frame (trj_ts r) + 1"
proof -
  define lpf where "lpf = (3 * n + 9) div 10"
  define cl where "cl = take lpf fr"
  define bl where "bl = drop lpf fr"
  have lpf: "0 < lpf" using n unfolding lpf_def by simp
  have len: "length fr = lpf + (if per then 1 else 0)"
    and cl_ok: "\<forall>l\<in>set cl. read_coord_line P (3 * n mod 10) l = Inr (coord_values P n l)"
    and tot: "length (concat (map (coord_values P n) cl)) = 3 * n"
    and bl_ok: "\<forall>l\<in>set bl. fr_read P 3 l \<noteq> None"
    using cf unfolding complete_frame_def lpf_def cl_def bl_def coord_values_def
    by (auto simp: list_all_iff split: sum.splits)
  have fr: "fr = cl @ bl" unfolding cl_def bl_def by simp
  have lcl: "length cl = lpf" unfolding cl_def using len by simp
  have cl_ne: "cl \<noteq> []" using lcl lpf by auto
  have loop: "read_next_timestep_loop P (3 * n mod 10) (int lpf) 0 (cl @ (bl @ f)) [] =
          Inr ([] @ concat (map (coord_values P n) cl), bl @ f)"
    using cl_ok cl_ne lcl by (intro loop_reads_lines) auto
  have ne: "concat (map (coord_values P n) cl) \<noteq> []"
  proof
    assume "concat (map (coord_values P n) cl) = []"
    then have "length (concat (map (coord_values P n) cl)) = 0" by (simp only: list.size)
    then show False using tot n by simp
  qed
  have lbl: "length bl = (if per then 1 else 0)"
    using len lcl arg_cong[OF fr, of length] by simp
  have loop': "read_next_timestep_loop P (trj_last_per_line r) (int (trj_lines_per_frame r)) 0 (fr @ f) [] =
          Inr (concat (map (coord_values P n) cl), bl @ f)"
    using loop r unfolding lpf_def[symmetric] fr by simp
  show ?thesis
  proof (cases per)
    case True
    then have "length bl = 1" using lbl by simp
    then obtain b where b: "bl = [b]" by (cases bl) auto
    then obtain box where box: "fr_read P 3 b = Some box" using bl_ok by auto
    show ?thesis
      unfolding TRJReader_read_next_timestep_def
      using loop' ne tot True r(1,2,5) box b by (simp add: r(3,4))
  next
    case False
    then have "bl = []" using lbl by simp
    then show ?thesis
      unfolding TRJReader_read_next_timestep_def
      using loop' ne tot False r(1,2,5) by (simp add: r(3,4))
  qed
qed




lemma read_next_not_periodic:
  assumes "\<not> trj_periodic r" "TRJReader_read_next_timestep P r = Inr r'"
  shows "\<not> trj_periodic r' \<and> trj_warnings r' = trj_warnings r \<and>
         ts_dimensions (trj_ts r') = ts_dimensions (trj_ts r)"
  using assms
  by (auto simp: TRJReader_read_next_timestep_def TRJReader_open_trajectory_def
           split: option.splits sum.splits prod.splits if_splits)

lemma sequential_reads_not_periodic:
  assumes "\<not> trj_periodic r" "sequential_reads P k r = Inr r'"
  shows "\<not> trj_periodic r' \<and> trj_warnings r' = trj_warnings r \<and>
         ts_dimensions (trj_ts r') = ts_dimensions (trj_ts r)"
  using assms
proof (induction k arbitrary: r)
  case 0
  then show ?case by simp
next
  case (Suc k)
  then obtain r1 where r1: "TRJReader_read_next_timestep P r = Inr r1" "sequential_reads P k r1 = Inr r'"
    by (auto split: sum.splits)
  have "\<not> trj_periodic r1 \<and> trj_warnings r1 = trj_warnings r \<and>
         ts_dimensions (trj_ts r1) = ts_dimensions (trj_ts r)"
    using read_next_not_periodic[OF Suc.prems(1) r1(1)] .
  then show ?case using Suc.IH[OF _ r1(2)] by simp
qed

subsection \<open>Counting frames\<close>








text \<open>
  Claim C5. A reader constructed with \<open>n_atoms = 1\<close>: the detection pass sets
  \<^verbatim>\<open>periodic\<close> to false, warns once and reads nothing; after the constructor and any
  number of further reads the flag is still false, that warning is the only one and
  no box has been stored in the frame buffer.
\<close>

theorem TRJReader_single_atom_never_periodic:
  assumes "TRJReader_init P disk (Some 1) = Inr r" "sequential_reads P k r = Inr r'"
  shows "TRJReader_detect_amber_box P (TRJReader_attributes disk 1) =
           Inr ((TRJReader_attributes disk 1)
                  \<lparr>trj_periodic := False,
                   trj_warnings := [''Trajectory contains a single atom: assuming periodic=False'']\<rparr>, False) \<and>
         \<not> trj_periodic r' \<and>
         trj_warnings r' = [''Trajectory contains a single atom: assuming periodic=False''] \<and>
         ts_dimensions (trj_ts r') = None"
proof -
  let ?a = "(TRJReader_attributes disk 1)
                  \<lparr>trj_periodic := False,
                   trj_warnings := [''Trajectory contains a single atom: assuming periodic=False'']\<rparr>"
  have d: "TRJReader_detect_amber_box P (TRJReader_attributes disk 1) = Inr (?a, False)"
    by (simp add: TRJReader_detect_amber_box_def TRJReader_attributes_def)
  then have i: "TRJReader_read_next_timestep P ?a = Inr r"
    using assms(1) by (simp add: TRJReader_init_def)
  have a: "\<not> trj_periodic ?a" "trj_warnings ?a = [''Trajectory contains a single atom: assuming periodic=False'']"
    "ts_dimensions (trj_ts ?a) = None"
    by (simp_all add: TRJReader_attributes_def Timestep_def)
  have "\<not> trj_periodic r \<and> trj_warnings r = trj_warnings ?a \<and>
         ts_dimensions (trj_ts r) = ts_dimensions (trj_ts ?a)"
    using read_next_not_periodic[OF a(1) i] .
  moreover have "\<not> trj_periodic r' \<and> trj_warnings r' = trj_warnings r \<and>
         ts_dimensions (trj_ts r') = ts_dimensions (trj_ts r)"
    using sequential_reads_not_periodic[OF _ assms(2)] calculation by simp
  ultimately show ?thesis using d a by simp
qed

theorem TRJReader_single_atom_never_periodic_witness:
  "\<exists>r r'. TRJReader_init FORTRANReader
            (Some [''title\<newline>'', ''   1.000   2.000   3.000\<newline>'', ''  10.000  10.000  10.000\<newline>''])
            (Some 1) = Inr r \<and>
          sequential_reads FORTRANReader 1 r = Inr r' \<and>
          \<not> trj_periodic r' \<and>
          trj_warnings r' = [''Trajectory contains a single atom: assuming periodic=False''] \<and>
          ts_pos (trj_ts r') = [10, 10, 10] \<and>
          ts_dimensions (trj_ts r') = None"
proof -
  let ?disk = "Some [''title\<newline>'', ''   1.000   2.000   3.000\<newline>'', ''  10.000  10.000  10.000\<newline>'']"
  have "case TRJReader_init FORTRANReader ?disk (Some 1) of
          Inl e \<Rightarrow> False
        | Inr r \<Rightarrow> (case sequential_reads FORTRANReader 1 r of
                       Inl e \<Rightarrow> False | Inr r' \<Rightarrow> ts_pos (trj_ts r') = [10, 10, 10])"
    by code_simp
  then obtain r r' where r: "TRJReader_init FORTRANReader ?disk (Some 1) = Inr r"
    "sequential_reads FORTRANReader 1 r = Inr r'" "ts_pos (trj_ts r') = [10, 10, 10]"
    by (auto split: sum.splits)
  from TRJReader_single_atom_never_periodic[OF r(1,2)] r show ?thesis by blast
qed

text \<open>
  Claim C10. For \<open>n_atoms \<ge> 2\<close> and a file that ends after the coordinate lines of
  its only frame, the constructor fails: the probe of \<^verbatim>\<open>_detect_amber_box\<close> reads one
  line past the frame, and the \<^verbatim>\<open>StopIteration\<close> of that read is not caught.
\<close>

theorem TRJReader_init_one_frame_without_box:
  assumes n: "2 \<le> n" and hdr: "length (py_rstrip hdr) \<le> 80"
    and fr: "complete_frame P n False fr"
  shows "TRJReader_init P (Some (hdr # fr)) (Some n) = Inl (StopIteration, [])"
proof -
  let ?a = "TRJReader_attributes (Some (hdr # fr)) n"
  define r1 where "r1 = ?a\<lparr>trj_trjfile := Some fr, trj_header := hdr,
                         trj_ts := (trj_ts ?a)\<lparr>ts_frame := - 1\<rparr>\<rparr>"
  have op: "TRJReader_reopen ?a = Inr (r1, fr)"
    using hdr unfolding TRJReader_reopen_def TRJReader_open_trajectory_def TRJReader_close_def r1_def
    by (simp add: anyopen_def TRJReader_attributes_def)
  have r1: "trj_trjfile (r1\<lparr>trj_periodic := False\<rparr>) = Some (fr @ [])"
    "trj_n_atoms (r1\<lparr>trj_periodic := False\<rparr>) = n"
    "trj_lines_per_frame (r1\<lparr>trj_periodic := False\<rparr>) = (3 * n + 9) div 10"
    "trj_last_per_line (r1\<lparr>trj_periodic := False\<rparr>) = 3 * n mod 10"
    "trj_periodic (r1\<lparr>trj_periodic := False\<rparr>) = False"
    unfolding r1_def by (simp_all add: TRJReader_attributes_def)
  have n0: "0 < n" using n by simp
  obtain r2 where r2: "TRJReader_read_next_timestep P (r1\<lparr>trj_periodic := False\<rparr>) = Inr r2"
    "trj_trjfile r2 = Some []"
    using read_next_complete_frame[OF fr n0 r1] by blast
  have "trj_n_atoms ?a \<noteq> 1" using n by (simp add: TRJReader_attributes_def)
  then have "TRJReader_detect_amber_box P ?a = Inl (StopIteration, [])"
    using op r2 by (simp add: TRJReader_detect_amber_box_def)
  then show ?thesis by (simp add: TRJReader_init_def)
qed

theorem TRJReader_init_one_frame_without_box_witness:
  "complete_frame FORTRANReader 2 False [''   1.000   2.000   3.000   4.000   5.000   6.000\<newline>''] \<and>
   TRJReader_init FORTRANReader
     (Some [''title\<newline>'', ''   1.000   2.000   3.000   4.000   5.000   6.000\<newline>'']) (Some 2) =
   Inl (StopIteration, [])"
proof -
  have c: "complete_frame FORTRANReader 2 False [''   1.000   2.000   3.000   4.000   5.000   6.000\<newline>'']"
    by code_simp
  have h: "length (py_rstrip ''title\<newline>'') \<le> 80" by code_simp
  have n: "(2::nat) \<le> 2" by simp
  from TRJReader_init_one_frame_without_box[OF n h c] c show ?thesis by simp
qed

section \<open>Properties of the binary reader\<close>

subsection \<open>What a successful open implies\<close>

lemma on_success_Inr_iff:
  "on_success m f = Inr y \<longleftrightarrow> (\<exists>x. m = Inr x \<and> f x = Inr y)"
  by (cases m) auto

lemma on_success_InrE:
  assumes "on_success m f = Inr y"
  obtains x where "m = Inr x" "f x = Inr y"
  using assms by (cases m) auto

lemma NCDFReader_open_Inr:
  assumes "NCDFReader_open c n_atoms convert_units = Inr r"
  shows "check_Conventions c = Inr () \<and> check_version_byte c = Inr () \<and>
         verify_variable_units c ''coordinates'' ''angstrom'' = Inr () \<and>
         get_n_frames c = Inr (ncr_n_frames r) \<and> ncr_trjfile r = Some c"
  using assms unfolding NCDFReader_open_def
  apply (elim on_success_InrE)
  apply (simp split: option.splits)
  apply auto
  done

lemma NCDFReader_read_frame_Inr:
  assumes "NCDFReader_read_frame U r frame = Inr r'"
  shows "0 \<le> frame \<and> frame < int (ncr_n_frames r) \<and> ncr_n_frames r' = ncr_n_frames r"
proof -
  have range: "\<not> (ncr_trjfile r = None)" "\<not> (frame \<ge> int (ncr_n_frames r) \<or> frame < 0)"
    using assms unfolding NCDFReader_read_frame_def by (auto split: if_splits)
  then show ?thesis
    using assms unfolding NCDFReader_read_frame_def
    apply (simp only: if_False)
    apply (elim on_success_InrE)
    apply auto
    done
qed

lemma NCDFReader_init_Inr:
  assumes "NCDFReader_init U c n_atoms convert_units = Inr r'"
  shows "\<exists>r. NCDFReader_open c n_atoms convert_units = Inr r \<and> NCDFReader_read_frame U r 0 = Inr r'"
  using assms unfolding NCDFReader_init_def by (simp add: on_success_Inr_iff)

lemma not_Inr_is_Inl: "(\<forall>r. m \<noteq> Inr r) \<Longrightarrow> \<exists>e. m = Inl e"
  by (cases m) auto

lemma init_rejects:
  assumes "(\<forall>s. nc_Conventions c = Some s \<longrightarrow>
             ''AMBER'' \<notin> set (py_split_sep CHR '','' s) \<and> ''AMBER'' \<notin> set (py_split s)) \<or>
           nc_version_byte c \<noteq> 2 \<or>
           (\<forall>v. map_of (nc_variables c) ''coordinates'' = Some v \<longrightarrow> nv_units v \<noteq> Some ''angstrom'')"
  shows "\<exists>e. NCDFReader_init U c n_atoms convert_units = Inl e"
proof (rule not_Inr_is_Inl, intro allI notI)
  fix r' assume "NCDFReader_init U c n_atoms convert_units = Inr r'"
  then obtain r where "NCDFReader_open c n_atoms convert_units = Inr r"
    using NCDFReader_init_Inr by blast
  then have ok: "check_Conventions c = Inr ()" "check_version_byte c = Inr ()"
    "verify_variable_units c ''coordinates'' ''angstrom'' = Inr ()"
    using NCDFReader_open_Inr by blast+
  have 1: "\<exists>s. nc_Conventions c = Some s \<and>
             (''AMBER'' \<in> set (py_split_sep CHR '','' s) \<or> ''AMBER'' \<in> set (py_split s))"
    using ok(1) by (auto simp: check_Conventions_def split: option.splits if_splits)
  have 2: "nc_version_byte c = 2"
    using ok(2) by (auto simp: check_version_byte_def split: if_splits)
  have 3: "\<exists>v. map_of (nc_variables c) ''coordinates'' = Some v \<and> nv_units v = Some ''angstrom''"
    using ok(3)
    by (auto simp: verify_variable_units_def variable_units_def NCDFReader_verify_units_def
          on_success_Inr_iff split: option.splits if_splits)
  show False using assms 1 2 3 by auto
qed

lemma checks_ignore_ConventionVersion:
  "check_Conventions (c\<lparr>nc_ConventionVersion := x\<rparr>) = check_Conventions c"
  "check_version_byte (c\<lparr>nc_ConventionVersion := x\<rparr>) = check_version_byte c"
  "check_spatial (c\<lparr>nc_ConventionVersion := x\<rparr>) = check_spatial c"
  "check_program (c\<lparr>nc_ConventionVersion := x\<rparr>) = check_program c"
  "get_n_atoms (c\<lparr>nc_ConventionVersion := x\<rparr>) n = get_n_atoms c n"
  "get_n_frames (c\<lparr>nc_ConventionVersion := x\<rparr>) = get_n_frames c"
  "verify_variable_units (c\<lparr>nc_ConventionVersion := x\<rparr>) name u = verify_variable_units c name u"
  "check_optional_units (c\<lparr>nc_ConventionVersion := x\<rparr>) = check_optional_units c"
  by (simp_all add: check_Conventions_def check_version_byte_def check_spatial_def
        check_program_def get_n_atoms_def get_n_frames_def verify_variable_units_def
        variable_units_def check_optional_units_def split: option.splits)

lemma NCDFReader_open_ConventionVersion:
  assumes "NCDFReader_open (c\<lparr>nc_ConventionVersion := Some ''1.0''\<rparr>) n cu = Inr r"
  shows "NCDFReader_open (c\<lparr>nc_ConventionVersion := Some v\<rparr>) n cu =
           Inr (r\<lparr>ncr_trjfile := Some (c\<lparr>nc_ConventionVersion := Some v\<rparr>),
                  ncr_warnings :=
                    (if v = ''1.0'' then []
                     else [''NCDF trajectory format is '' @ v @ '' but the reader implements format 1.0''])
                    @ ncr_warnings r\<rparr>)"
  using assms unfolding NCDFReader_open_def
  apply (simp only: checks_ignore_ConventionVersion)
  apply (elim on_success_InrE)
  apply (simp add: check_ConventionVersion_def split: option.splits)
  apply auto
  done

lemma get_var_and_scale_cong:
  assumes "ncr_trjfile r = Some c" "nc_variables c' = nc_variables c"
  shows "NCDFReader_get_var_and_scale (r\<lparr>ncr_trjfile := Some c', ncr_warnings := ws\<rparr>) name k =
         NCDFReader_get_var_and_scale r name k"
  using assms by (simp add: NCDFReader_get_var_and_scale_def split: option.splits)

lemma NCDFReader_read_frame_cong:
  assumes "ncr_trjfile r = Some c" "nc_variables c' = nc_variables c"
    and "NCDFReader_read_frame U r k = Inr r2"
  shows "NCDFReader_read_frame U (r\<lparr>ncr_trjfile := Some c', ncr_warnings := ws\<rparr>) k =
         Inr (r2\<lparr>ncr_trjfile := Some c', ncr_warnings := ws\<rparr>)"
proof -
  have range: "\<not> (frame \<ge> int (ncr_n_frames r) \<or> frame < 0)" if "frame = k" for frame
    using assms(3) that unfolding NCDFReader_read_frame_def by (auto split: if_splits)
  show ?thesis
    using assms(3) range[OF refl] assms(1)
    unfolding NCDFReader_read_frame_def
    apply (simp only: get_var_and_scale_cong[OF assms(1,2)])
    apply (simp del: on_success.simps)
    apply (elim on_success_InrE)
    apply (auto split: if_splits)
    done
qed

lemma NCDFReader_read_frame_keeps:
  assumes "NCDFReader_read_frame U r frame = Inr r'"
  shows "ncr_warnings r' = ncr_warnings r \<and> ncr_trjfile r' = ncr_trjfile r"
proof -
  have range: "\<not> (ncr_trjfile r = None)" "\<not> (frame \<ge> int (ncr_n_frames r) \<or> frame < 0)"
    using assms unfolding NCDFReader_read_frame_def by (auto split: if_splits)
  then show ?thesis
    using assms unfolding NCDFReader_read_frame_def
    apply (simp only: if_False)
    apply (elim on_success_InrE)
    apply auto
    done
qed


text \<open>
  Claim C3. Opening a container fails with an exception when its \<^verbatim>\<open>Conventions\<close>
  attribute is missing or has the token \<^verbatim>\<open>AMBER\<close> neither in its comma-separated nor in
  its blank-separated list, when its version byte is not 2, or when it has no
  coordinates variable with the unit string \<^verbatim>\<open>angstrom\<close>. A \<^verbatim>\<open>ConventionVersion\<close> other
  than \<^verbatim>\<open>1.0\<close> only warns: a container that opens with the value \<^verbatim>\<open>1.0\<close> opens with any
  other value too, to the same reader with one more warning in front.
\<close>

theorem NCDFReader_init_validation:
  "(((\<forall>s. nc_Conventions c = Some s \<longrightarrow>
         ''AMBER'' \<notin> set (py_split_sep CHR '','' s) \<and> ''AMBER'' \<notin> set (py_split s)) \<or>
     nc_version_byte c \<noteq> 2 \<or>
     (\<forall>v. map_of (nc_variables c) ''coordinates'' = Some v \<longrightarrow> nv_units v \<noteq> Some ''angstrom''))
    \<longrightarrow> (\<exists>e. NCDFReader_init U c n_atoms convert_units = Inl e)) \<and>
   (\<forall>r v. NCDFReader_init U (c\<lparr>nc_ConventionVersion := Some ''1.0''\<rparr>) n_atoms convert_units = Inr r \<and>
          v \<noteq> ''1.0'' \<longrightarrow>
          NCDFReader_init U (c\<lparr>nc_ConventionVersion := Some v\<rparr>) n_atoms convert_units =
            Inr (r\<lparr>ncr_trjfile := Some (c\<lparr>nc_ConventionVersion := Some v\<rparr>),
                   ncr_warnings :=
                     (''NCDF trajectory format is '' @ v @ '' but the reader implements format 1.0'')
                     # ncr_warnings r\<rparr>))"
proof (intro conjI impI allI)
  assume "(\<forall>s. nc_Conventions c = Some s \<longrightarrow>
         ''AMBER'' \<notin> set (py_split_sep CHR '','' s) \<and> ''AMBER'' \<notin> set (py_split s)) \<or>
     nc_version_byte c \<noteq> 2 \<or>
     (\<forall>v. map_of (nc_variables c) ''coordinates'' = Some v \<longrightarrow> nv_units v \<noteq> Some ''angstrom'')"
  then show "\<exists>e. NCDFReader_init U c n_atoms convert_units = Inl e"
    by (rule init_rejects)
next
  fix r v
  let ?c1 = "c\<lparr>nc_ConventionVersion := Some ''1.0''\<rparr>"
  let ?cv = "c\<lparr>nc_ConventionVersion := Some v\<rparr>"
  let ?w = "''NCDF trajectory format is '' @ v @ '' but the reader implements format 1.0''"
  assume a: "NCDFReader_init U ?c1 n_atoms convert_units = Inr r \<and> v \<noteq> ''1.0''"
  then obtain r0 where r0: "NCDFReader_open ?c1 n_atoms convert_units = Inr r0"
    "NCDFReader_read_frame U r0 0 = Inr r"
    using NCDFReader_init_Inr by blast
  have t: "ncr_trjfile r0 = Some ?c1" using NCDFReader_open_Inr[OF r0(1)] by simp
  have w: "ncr_warnings r = ncr_warnings r0" using NCDFReader_read_frame_keeps[OF r0(2)] by simp
  have o: "NCDFReader_open ?cv n_atoms convert_units =
             Inr (r0\<lparr>ncr_trjfile := Some ?cv, ncr_warnings := ?w # ncr_warnings r0\<rparr>)"
    using NCDFReader_open_ConventionVersion[OF r0(1), of v] a by simp
  have v: "nc_variables ?cv = nc_variables ?c1" by simp
  have "NCDFReader_read_frame U (r0\<lparr>ncr_trjfile := Some ?cv, ncr_warnings := ?w # ncr_warnings r0\<rparr>) 0 =
          Inr (r\<lparr>ncr_trjfile := Some ?cv, ncr_warnings := ?w # ncr_warnings r0\<rparr>)"
    using NCDFReader_read_frame_cong[OF t v r0(2)] .
  then show "NCDFReader_init U ?cv n_atoms convert_units =
            Inr (r\<lparr>ncr_trjfile := Some ?cv, ncr_warnings := ?w # ncr_warnings r\<rparr>)"
    unfolding NCDFReader_init_def o w by simp
qed

theorem NCDFReader_init_validation_witness:
  "(\<exists>e. NCDFReader_init no_conversion
          (sample_container ''CF-1.6'' ''1.0'' 2 ''angstrom'' None [Array [1, 2, 3]] [Scalar 0])
          None True = Inl e) \<and>
   (\<exists>e. NCDFReader_init no_conversion
          (sample_container ''AMBER'' ''1.0'' 1 ''angstrom'' None [Array [1, 2, 3]] [Scalar 0])
          None True = Inl e) \<and>
   (\<exists>e. NCDFReader_init no_conversion
          (sample_container ''AMBER'' ''1.0'' 2 ''nanometer'' None [Array [1, 2, 3]] [Scalar 0])
          None True = Inl e) \<and>
   (\<exists>r. NCDFReader_init no_conversion
          (sample_container ''AMBER'' ''2.0'' 2 ''angstrom'' None [Array [1, 2, 3]] [Scalar 0])
          None True = Inr r \<and>
        ts_pos (ncr_ts r) = [1, 2, 3] \<and>
        ncr_warnings r = [''NCDF trajectory format is 2.0 but the reader implements format 1.0''])"
proof -
  let ?good = "sample_container ''AMBER'' ''1.0'' 2 ''angstrom'' None [Array [1, 2, 3]] [Scalar 0]"
  let ?c1 = "sample_container ''CF-1.6'' ''1.0'' 2 ''angstrom'' None [Array [1, 2, 3]] [Scalar 0]"
  let ?c2 = "sample_container ''AMBER'' ''1.0'' 1 ''angstrom'' None [Array [1, 2, 3]] [Scalar 0]"
  let ?c3 = "sample_container ''AMBER'' ''1.0'' 2 ''nanometer'' None [Array [1, 2, 3]] [Scalar 0]"
  let ?c4 = "sample_container ''AMBER'' ''2.0'' 2 ''angstrom'' None [Array [1, 2, 3]] [Scalar 0]"
  have h1: "\<forall>s. nc_Conventions ?c1 = Some s \<longrightarrow>
         ''AMBER'' \<notin> set (py_split_sep CHR '','' s) \<and> ''AMBER'' \<notin> set (py_split s)"
    by (simp add: sample_container_def py_split_sep_def py_split_def py_isspace_def)
  have h2: "nc_version_byte ?c2 \<noteq> 2" by (simp add: sample_container_def)
  have h3: "\<forall>v. map_of (nc_variables ?c3) ''coordinates'' = Some v \<longrightarrow> nv_units v \<noteq> Some ''angstrom''"
    by (auto simp: sample_container_def)
  have e1: "\<exists>e. NCDFReader_init no_conversion ?c1 None True = Inl e"
    using NCDFReader_init_validation[of ?c1 no_conversion None True] h1 by blast
  have e2: "\<exists>e. NCDFReader_init no_conversion ?c2 None True = Inl e"
    using NCDFReader_init_validation[of ?c2 no_conversion None True] h2 by blast
  have e3: "\<exists>e. NCDFReader_init no_conversion ?c3 None True = Inl e"
    using NCDFReader_init_validation[of ?c3 no_conversion None True] h3 by blast
  have "case NCDFReader_init no_conversion ?good None True of
          Inl e \<Rightarrow> False
        | Inr r \<Rightarrow> ts_pos (ncr_ts r) = [1, 2, 3] \<and> ncr_warnings r = []"
    by code_simp
  then obtain r where r: "NCDFReader_init no_conversion ?good None True = Inr r"
    "ts_pos (ncr_ts r) = [1, 2, 3]" "ncr_warnings r = []"
    by (auto split: sum.splits)
  have g: "?good\<lparr>nc_ConventionVersion := Some ''1.0''\<rparr> = ?good"
    "?good\<lparr>nc_ConventionVersion := Some ''2.0''\<rparr> = ?c4"
    by (simp_all add: sample_container_def)
  have ne: "''2.0'' \<noteq> ''1.0''" by simp
  have r1: "NCDFReader_init no_conversion (?good\<lparr>nc_ConventionVersion := Some ''1.0''\<rparr>) None True = Inr r"
    unfolding g using r(1) .
  have "NCDFReader_init no_conversion (?good\<lparr>nc_ConventionVersion := Some ''2.0''\<rparr>) None True =
          Inr (r\<lparr>ncr_trjfile := Some (?good\<lparr>nc_ConventionVersion := Some ''2.0''\<rparr>),
                 ncr_warnings :=
                   (''NCDF trajectory format is '' @ ''2.0'' @ '' but the reader implements format 1.0'')
                   # ncr_warnings r\<rparr>)"
    by (rule NCDFReader_init_validation[THEN conjunct2, rule_format, OF conjI[OF r1 ne]])
  then have "NCDFReader_init no_conversion ?c4 None True =
          Inr (r\<lparr>ncr_trjfile := Some ?c4,
                 ncr_warnings :=
                   (''NCDF trajectory format is '' @ ''2.0'' @ '' but the reader implements format 1.0'')
                   # ncr_warnings r\<rparr>)"
    unfolding g .
  then have e4: "\<exists>r. NCDFReader_init no_conversion ?c4 None True = Inr r \<and>
        ts_pos (ncr_ts r) = [1, 2, 3] \<and>
        ncr_warnings r = [''NCDF trajectory format is 2.0 but the reader implements format 1.0'']"
    using r(2,3) by simp
  show ?thesis using e1 e2 e3 e4 by blast
qed

text \<open>
  Claim C9. The constructor ends with \<^verbatim>\<open>self._read_frame(0)\<close>. For a container whose
  frame count (the frame dimension or, when that has no size, the length of the time
  variable) is 0, opening fails; when the container passes the validation that comes
  first, the exception is the \<^verbatim>\<open>IndexError\<close> of that read. Hence a reader that was
  opened holds at least one frame.
\<close>

theorem NCDFReader_init_needs_a_frame:
  "(get_n_frames c = Inr 0 \<longrightarrow>
      (\<exists>e. NCDFReader_init U c n_atoms convert_units = Inl e) \<and>
      (\<forall>r. NCDFReader_open c n_atoms convert_units = Inr r \<longrightarrow>
           NCDFReader_init U c n_atoms convert_units =
             Inl (IndexError, ''frame index must be 0 <= frame < n_frames''))) \<and>
   (\<forall>r. NCDFReader_init U c n_atoms convert_units = Inr r \<longrightarrow> 1 \<le> ncr_n_frames r)"
proof (intro conjI impI allI)
  assume z: "get_n_frames c = Inr 0"
  show "\<exists>e. NCDFReader_init U c n_atoms convert_units = Inl e"
  proof (rule not_Inr_is_Inl, intro allI notI)
    fix r' assume "NCDFReader_init U c n_atoms convert_units = Inr r'"
    then obtain r where r: "NCDFReader_open c n_atoms convert_units = Inr r"
      "NCDFReader_read_frame U r 0 = Inr r'"
      using NCDFReader_init_Inr by blast
    have "ncr_n_frames r = 0" using NCDFReader_open_Inr[OF r(1)] z by simp
    then show False using NCDFReader_read_frame_Inr[OF r(2)] by simp
  qed
next
  fix r
  assume z: "get_n_frames c = Inr 0" and r: "NCDFReader_open c n_atoms convert_units = Inr r"
  have "ncr_n_frames r = 0" "ncr_trjfile r = Some c" using NCDFReader_open_Inr[OF r] z by simp_all
  then have "NCDFReader_read_frame U r 0 = Inl (IndexError, ''frame index must be 0 <= frame < n_frames'')"
    by (simp add: NCDFReader_read_frame_def)
  then show "NCDFReader_init U c n_atoms convert_units =
             Inl (IndexError, ''frame index must be 0 <= frame < n_frames'')"
    using r by (simp add: NCDFReader_init_def)
next
  fix r' assume "NCDFReader_init U c n_atoms convert_units = Inr r'"
  then obtain r where r: "NCDFReader_open c n_atoms convert_units = Inr r"
    "NCDFReader_read_frame U r 0 = Inr r'"
    using NCDFReader_init_Inr by blast
  show "1 \<le> ncr_n_frames r'" using NCDFReader_read_frame_Inr[OF r(2)] by simp
qed

theorem NCDFReader_init_needs_a_frame_witness:
  "get_n_frames (sample_container ''AMBER'' ''1.0'' 2 ''angstrom'' None [] []) = Inr 0 \<and>
   NCDFReader_init no_conversion (sample_container ''AMBER'' ''1.0'' 2 ''angstrom'' None [] []) None True =
     Inl (IndexError, ''frame index must be 0 <= frame < n_frames'') \<and>
   (\<exists>r. NCDFReader_init no_conversion
          (sample_container ''AMBER'' ''1.0'' 2 ''angstrom'' None [Array [1, 2, 3]] [Scalar 0])
          None True = Inr r \<and> ncr_n_frames r = 1)"
proof -
  let ?c0 = "sample_container ''AMBER'' ''1.0'' 2 ''angstrom'' None [] []"
  let ?c1 = "sample_container ''AMBER'' ''1.0'' 2 ''angstrom'' None [Array [1, 2, 3]] [Scalar 0]"
  have z: "get_n_frames ?c0 = Inr 0" by code_simp
  have "\<not> isl (NCDFReader_open ?c0 None True)" by code_simp
  then obtain r0 where r0: "NCDFReader_open ?c0 None True = Inr r0"
    by (cases "NCDFReader_open ?c0 None True") auto
  have i0: "NCDFReader_init no_conversion ?c0 None True =
     Inl (IndexError, ''frame index must be 0 <= frame < n_frames'')"
    by (rule NCDFReader_init_needs_a_frame[THEN conjunct1, rule_format, THEN conjunct2, rule_format, OF z r0])
  have "case NCDFReader_init no_conversion ?c1 None True of
          Inl e \<Rightarrow> False | Inr r \<Rightarrow> ncr_n_frames r = 1"
    by code_simp
  then obtain r where r: "NCDFReader_init no_conversion ?c1 None True = Inr r" "ncr_n_frames r = 1"
    by (auto split: sum.splits)
  show ?thesis using z i0 r by blast
qed


text \<open>
  Claim C7. \<^verbatim>\<open>_get_dt\<close> returns the second stored time minus the first. With fewer
  than two stored times it raises \<^verbatim>\<open>AttributeError\<close>, on which the caller falls back to
  1.0 ps with a warning.
\<close>

theorem NCDFReader_get_dt_first_two_times:
  assumes "ncr_trjfile r = Some c" "map_of (nc_variables c) ''time'' = Some v"
  shows "(\<forall>t0 t1 rest. nv_data v = t0 # t1 # rest \<longrightarrow>
            NCDFReader_get_dt r = nd_sub t1 t0 \<and>
            (\<forall>a b. t0 = Scalar a \<and> t1 = Scalar b \<longrightarrow>
                caller_dt None r = Inr (Scalar (b - a), []))) \<and>
         (length (nv_data v) < 2 \<longrightarrow>
            NCDFReader_get_dt r = Inl (AttributeError, []) \<and>
            caller_dt None r = Inr (Scalar 1, [''Reader has no dt information, set to 1.0 ps'']))"
proof (intro conjI impI allI)
  fix t0 t1 rest assume d: "nv_data v = t0 # t1 # rest"
  show g: "NCDFReader_get_dt r = nd_sub t1 t0"
    using assms d by (simp add: NCDFReader_get_dt_def py_index_def)
  fix a b assume "t0 = Scalar a \<and> t1 = Scalar b"
  then show "caller_dt None r = Inr (Scalar (b - a), [])"
    using g by (simp add: caller_dt_def)
next
  assume l: "length (nv_data v) < 2"
  show g: "NCDFReader_get_dt r = Inl (AttributeError, [])"
  proof (cases "nv_data v")
    case Nil
    then show ?thesis using assms by (simp add: NCDFReader_get_dt_def py_index_def)
  next
    case (Cons t ts)
    then have "ts = []" using l by simp
    then show ?thesis using assms Cons by (simp add: NCDFReader_get_dt_def py_index_def)
  qed
  show "caller_dt None r = Inr (Scalar 1, [''Reader has no dt information, set to 1.0 ps''])"
    using g by (simp add: caller_dt_def)
qed

theorem NCDFReader_get_dt_first_two_times_witness:
  "(\<exists>r. NCDFReader_init no_conversion
          (sample_container ''AMBER'' ''1.0'' 2 ''angstrom'' None
             [Array [1, 2, 3], Array [4, 5, 6]] [Scalar 0, Scalar 2]) None True = Inr r \<and>
        NCDFReader_get_dt r = Inr (Scalar 2) \<and> caller_dt None r = Inr (Scalar 2, [])) \<and>
   (\<exists>r. NCDFReader_init no_conversion
          (sample_container ''AMBER'' ''1.0'' 2 ''angstrom'' None [Array [1, 2, 3]] [Scalar 0])
          None True = Inr r \<and>
        NCDFReader_get_dt r = Inl (AttributeError, []) \<and>
        caller_dt None r = Inr (Scalar 1, [''Reader has no dt information, set to 1.0 ps'']))"
proof -
  let ?c2 = "sample_container ''AMBER'' ''1.0'' 2 ''angstrom'' None
             [Array [1, 2, 3], Array [4, 5, 6]] [Scalar 0, Scalar 2]"
  let ?c1 = "sample_container ''AMBER'' ''1.0'' 2 ''angstrom'' None [Array [1, 2, 3]] [Scalar 0]"
  let ?t2 = "\<lparr>nv_type = ''f4'', nv_dims = [''frame''], nv_units = Some ''picosecond'',
           nv_scale_factor = None, nv_data = [Scalar 0, Scalar 2], nv_chars = []\<rparr>"
  let ?t1 = "\<lparr>nv_type = ''f4'', nv_dims = [''frame''], nv_units = Some ''picosecond'',
           nv_scale_factor = None, nv_data = [Scalar 0], nv_chars = []\<rparr>"
  have "\<not> isl (NCDFReader_init no_conversion ?c2 None True)" by code_simp
  then obtain r2 where r2: "NCDFReader_init no_conversion ?c2 None True = Inr r2"
    by (cases "NCDFReader_init no_conversion ?c2 None True") auto
  obtain q2 where q2: "NCDFReader_open ?c2 None True = Inr q2" "NCDFReader_read_frame no_conversion q2 0 = Inr r2"
    using NCDFReader_init_Inr[OF r2] by blast
  have f2: "ncr_trjfile r2 = Some ?c2"
    using NCDFReader_open_Inr[OF q2(1)] NCDFReader_read_frame_keeps[OF q2(2)] by simp
  have v2: "map_of (nc_variables ?c2) ''time'' = Some ?t2" by (simp add: sample_container_def)
  have d2: "nv_data ?t2 = Scalar 0 # Scalar 2 # []" by simp
  note T2 = NCDFReader_get_dt_first_two_times[OF f2 v2, THEN conjunct1, rule_format, OF d2]
  have g2: "NCDFReader_get_dt r2 = Inr (Scalar 2)" using T2[THEN conjunct1] by simp
  have s2: "Scalar 0 = Scalar 0 \<and> Scalar 2 = Scalar (2::real)" by simp
  have k2: "caller_dt None r2 = Inr (Scalar 2, [])"
    using T2[THEN conjunct2, rule_format, OF s2] by simp
  have "\<not> isl (NCDFReader_init no_conversion ?c1 None True)" by code_simp
  then obtain r1 where r1: "NCDFReader_init no_conversion ?c1 None True = Inr r1"
    by (cases "NCDFReader_init no_conversion ?c1 None True") auto
  obtain q1 where q1: "NCDFReader_open ?c1 None True = Inr q1" "NCDFReader_read_frame no_conversion q1 0 = Inr r1"
    using NCDFReader_init_Inr[OF r1] by blast
  have f1: "ncr_trjfile r1 = Some ?c1"
    using NCDFReader_open_Inr[OF q1(1)] NCDFReader_read_frame_keeps[OF q1(2)] by simp
  have v1: "map_of (nc_variables ?c1) ''time'' = Some ?t1" by (simp add: sample_container_def)
  have l1: "length (nv_data ?t1) < 2" by simp
  note T1 = NCDFReader_get_dt_first_two_times[OF f1 v1, THEN conjunct2, rule_format, OF l1]
  show ?thesis using r2 g2 k2 r1 T1 by blast
qed

end
